theory Spec2Isabelle
  imports Main
begin

section \<open>Backbone models and collections\<close>

text \<open>
  The three pending buffers (\<open>MessageReceipts\<close>, \<open>ViewOnceOpenSyncs\<close>, \<open>MessageRequests\<close>)
  are Backbone collections of Backbone models. A model is an object with an identity (its
  client id, \<open>cid\<close>) and an attribute hash; \<open>model.get('k')\<close> reads attribute \<open>k\<close>. A
  collection keeps its models in insertion order and never holds two models with the same
  \<open>cid\<close>. \<open>Collection.remove\<close> takes models out by identity, not by the value of their
  attributes: two receipts with equal attributes are still two models.
\<close>

record 'a Model =
  cid :: nat
  attributes :: 'a

type_synonym 'a Collection = "'a Model list"

definition collection_remove :: "'a Model list \<Rightarrow> 'a Collection \<Rightarrow> 'a Collection" where
  "collection_remove models c = filter (\<lambda>m. cid m \<notin> set (map cid models)) c"

text \<open>JavaScript truthiness of an optional string and of an optional boolean.\<close>

definition truthy :: "string option \<Rightarrow> bool" where
  "truthy s = (case s of None \<Rightarrow> False | Some x \<Rightarrow> x \<noteq> [])"

definition truthy_bool :: "bool option \<Rightarrow> bool" where
  "truthy_bool b = (case b of None \<Rightarrow> False | Some x \<Rightarrow> x)"

section \<open>Send states\<close>

datatype SendStatus = Failed | Pending | Sent | Delivered | Read | Viewed

datatype SendActionType = GotDeliveryReceipt | GotReadReceipt | GotViewedReceipt

text \<open>
  A per-recipient send state \<open>{ status, updatedAt? }\<close> and the action handed to the
  reducer, \<open>{ type, updatedAt }\<close>. Timestamps are JavaScript numbers holding integral
  milliseconds; an absent and an \<open>undefined\<close> \<open>updatedAt\<close> are both \<open>None\<close>.
\<close>

record SendState =
  status :: SendStatus
  updatedAt :: "int option"

record SendAction =
  action_type :: SendActionType
  action_updatedAt :: int

type_synonym SendStateByConversationId = "string \<rightharpoonup> SendState"

type_synonym Reducer = "SendState \<Rightarrow> SendAction \<Rightarrow> SendState"

section \<open>Receipts, messages, conversations\<close>

datatype MessageReceiptType = Delivery | Read | View

record MessageReceiptAttributesType =
  messageSentAt :: int
  receiptTimestamp :: int
  sourceServiceId :: string
  sourceConversationId :: string
  sourceDevice :: int
  type :: MessageReceiptType
  wasSentEncrypted :: bool

type_synonym MessageReceiptModel = "MessageReceiptAttributesType Model"

record EditHistoryType =
  edit_timestamp :: int
  edit_sendStateByConversationId :: "SendStateByConversationId option"

text \<open>
  Modelled from the spec: the selectors \<open>isOutgoing\<close> and \<open>isStory\<close> of
  \<open>state/selectors/message\<close> are imported by the receipts module but are not part of the
  sources at hand. The spec speaks of "outgoing or story messages" and of "story content",
  so a message carries a kind tag and the two selectors test it.
\<close>

datatype MessageType = Incoming | Outgoing | Story | OtherMessageType

text \<open>
  The attributes of a message that the reconciliation code reads or writes. A
  \<open>MessageModel\<close> is identified with its attribute hash: \<open>message.get\<close>, \<open>message.set\<close>
  and \<open>message.attributes\<close> are all the code uses of it.
\<close>

record MessageAttributesType =
  id' :: string
  messageType :: MessageType
  conversationId :: string
  timestamp :: int
  sent_at :: int
  msg_source :: "string option"
  msg_sourceServiceId :: "string option"
  editMessageTimestamp :: "int option"
  editHistory :: "EditHistoryType list option"
  sendStateByConversationId :: "SendStateByConversationId option"
  storyDistributionListId :: "string option"
  deletedForEveryone :: "bool option"
  unidentifiedDeliveries :: "string list option"

definition isOutgoing :: "MessageAttributesType \<Rightarrow> bool" where
  "isOutgoing message = (messageType message = Outgoing)"

definition isStory :: "MessageAttributesType \<Rightarrow> bool" where
  "isStory message = (messageType message = Story)"

text \<open>
  A conversation as the code sees it: \<open>conversation.get('e164')\<close>,
  \<open>conversation.getServiceId()\<close>, \<open>conversation.get('groupId')\<close>, and whether the model
  carries a \<open>debouncedUpdateLastMessage\<close> function.
\<close>

record ConversationModel =
  conv_id :: string
  e164 :: "string option"
  getServiceId :: "string option"
  groupId :: "string option"
  debouncedUpdateLastMessage :: bool

datatype error = StorageError

text \<open>
  The collaborators the modules reach through \<open>window\<close> and through imports that are not
  part of the sources at hand. Each is a parameter: the settings store, the storage queries
  (which may fail), the message and conversation controllers, and the helpers
  \<open>sendStateReducer\<close>, \<open>getSourceServiceId\<close>, \<open>getMessageSentTimestamp\<close> and
  \<open>markViewOnceMessageViewed\<close>.
\<close>

record Env =
  read_receipt_setting :: "bool option"
  getStoryViewReceiptsEnabled :: bool
  getCheckedAci :: string
  getSourceServiceId :: "MessageAttributesType \<Rightarrow> string option"
  getMessageSentTimestamp :: "MessageAttributesType \<Rightarrow> int"
  getMessagesBySentAt :: "int \<Rightarrow> error + MessageAttributesType list"
  getAllGroupsInvolvingServiceId :: "string \<Rightarrow> error + ConversationModel list"
  register :: "string \<Rightarrow> MessageAttributesType \<Rightarrow> MessageAttributesType"
  ConversationController_get :: "string \<Rightarrow> ConversationModel option"
  getConversationId :: "string \<Rightarrow> string option"
  lookupOrCreate :: "string option \<Rightarrow> string option \<Rightarrow> ConversationModel option"
  reducer :: Reducer
  markViewOnceMessageViewed :: "MessageAttributesType \<Rightarrow> error option"

section \<open>The send-state lattice of the spec\<close>

text \<open>
  Modelled from the spec: part of the absent \<open>sendStateReducer\<close>. Section 4.1 lets a
  receipt "bump \<open>updatedAt\<close> only if the new receipt timestamp is not older", and the
  example of section 8 keeps 100 when a receipt stamped 90 arrives: the merge keeps the
  later of the two timestamps, and takes the receipt's when the state has none.
\<close>

definition bumpUpdatedAt :: "int option \<Rightarrow> int \<Rightarrow> int option" where
  "bumpUpdatedAt old ts =
     (case old of None \<Rightarrow> Some ts | Some u \<Rightarrow> if u \<le> ts then Some ts else Some u)"

text \<open>
  Modelled from the spec: \<open>sendStateReducer\<close> of \<open>messages/MessageSendState\<close> is imported
  by the receipts module but is not part of the sources at hand. The definition follows
  section 4.1 of the spec (the merge of an old per-recipient state with a receipt action):
  \<^item> \<open>GotDeliveryReceipt\<close>: from \<open>Pending\<close> or \<open>Sent\<close>, upgrade to \<open>Delivered\<close> with
    \<open>updatedAt\<close> the receipt timestamp; from \<open>Delivered\<close>, \<open>Read\<close> or \<open>Viewed\<close> keep the
    status and bump \<open>updatedAt\<close> only if the receipt timestamp is not older;
  \<^item> \<open>GotReadReceipt\<close>: upgrade to \<open>Read\<close> unless the status is already \<open>Read\<close> or
    \<open>Viewed\<close>;
  \<^item> \<open>GotViewedReceipt\<close>: upgrade to \<open>Viewed\<close>;
  \<^item> \<open>Failed\<close> is absorbing: no receipt changes it.
  On an upgrade by a read or viewed receipt \<open>updatedAt\<close> does not regress, as in the
  spec's example (\<open>{Delivered, 100}\<close> merged with a read receipt at 90 gives
  \<open>{Read, 100}\<close>).
\<close>

definition sendStateReducer :: Reducer where
  "sendStateReducer state action =
     (let ts = action_updatedAt action in
      if status state = Failed then state
      else case action_type action of
        GotDeliveryReceipt \<Rightarrow>
          if status state = Pending \<or> status state = Sent
          then \<lparr>status = Delivered, updatedAt = Some ts\<rparr>
          else state\<lparr>updatedAt := bumpUpdatedAt (updatedAt state) ts\<rparr>
      | GotReadReceipt \<Rightarrow>
          if status state = SendStatus.Read \<or> status state = Viewed
          then state
          else \<lparr>status = SendStatus.Read, updatedAt = bumpUpdatedAt (updatedAt state) ts\<rparr>
      | GotViewedReceipt \<Rightarrow>
          \<lparr>status = Viewed, updatedAt = bumpUpdatedAt (updatedAt state) ts\<rparr>)"

section \<open>The receipts module\<close>

subsection \<open>\<open>shouldDropReceipt\<close>\<close>

definition shouldDropReceipt :: "Env \<Rightarrow> MessageReceiptModel \<Rightarrow> MessageAttributesType \<Rightarrow> bool" where
  "shouldDropReceipt env receipt message =
     (case type (attributes receipt) of
        Delivery \<Rightarrow> False
      | MessageReceiptType.Read \<Rightarrow> \<not> truthy_bool (read_receipt_setting env)
      | View \<Rightarrow>
          if isStory message then \<not> getStoryViewReceiptsEnabled env
          else \<not> truthy_bool (read_receipt_setting env))"

subsection \<open>\<open>getNewSendStateByConversationId\<close>\<close>

definition sendActionTypeOf :: "MessageReceiptType \<Rightarrow> SendActionType" where
  "sendActionTypeOf t =
     (case t of
        Delivery \<Rightarrow> GotDeliveryReceipt
      | MessageReceiptType.Read \<Rightarrow> GotReadReceipt
      | View \<Rightarrow> GotViewedReceipt)"

definition getNewSendStateByConversationId ::
  "Reducer \<Rightarrow> SendStateByConversationId \<Rightarrow> MessageReceiptModel \<Rightarrow> SendStateByConversationId" where
  "getNewSendStateByConversationId red oldSendStateByConversationId receipt =
     (let receiptTimestamp' = receiptTimestamp (attributes receipt);
          sourceConversationId' = sourceConversationId (attributes receipt);
          type' = type (attributes receipt);
          oldSendState =
            (case oldSendStateByConversationId sourceConversationId' of
               None \<Rightarrow> \<lparr>status = Sent, updatedAt = None\<rparr>
             | Some s \<Rightarrow> s);
          sendActionType = sendActionTypeOf type';
          newSendState =
            red oldSendState \<lparr>action_type = sendActionType, action_updatedAt = receiptTimestamp'\<rparr>
      in oldSendStateByConversationId(sourceConversationId' \<mapsto> newSendState))"

subsection \<open>\<open>getTargetMessage\<close>\<close>

text \<open>
  \<open>messages\<close> are the snapshots storage returned for the receipt's sent timestamp. The
  group query is a storage call and may fail; the failure propagates to the caller.
\<close>

definition getTargetMessage ::
  "Env \<Rightarrow> string \<Rightarrow> string \<Rightarrow> MessageAttributesType list
     \<Rightarrow> error + MessageAttributesType option" where
  "getTargetMessage env sourceId serviceId messages =
     (if messages = [] then Inr None
      else
        case find (\<lambda>item. (isOutgoing item \<or> isStory item) \<and> sourceId = conversationId item)
               messages of
          Some message \<Rightarrow> Inr (Some (register env (id' message) message))
        | None \<Rightarrow>
            (case getAllGroupsInvolvingServiceId env serviceId of
               Inl e \<Rightarrow> Inl e
             | Inr groups \<Rightarrow>
                 let ids = map conv_id groups @ [sourceId] in
                 (case find (\<lambda>item. (isOutgoing item \<or> isStory item)
                                \<and> conversationId item \<in> set ids) messages of
                    None \<Rightarrow> Inr None
                  | Some target \<Rightarrow> Inr (Some (register env (id' target) target)))))"

definition wasDeliveredWithSealedSender :: "Env \<Rightarrow> string \<Rightarrow> MessageAttributesType \<Rightarrow> bool" where
  "wasDeliveredWithSealedSender env conversationId' message =
     list_ex (\<lambda>identifier. getConversationId env identifier = Some conversationId')
       (case unidentifiedDeliveries message of None \<Rightarrow> [] | Some ids \<Rightarrow> ids)"

subsection \<open>\<open>MessageReceipts.forMessage\<close>\<close>

text \<open>The method returns the early receipts to apply, and leaves the collection updated.\<close>

definition forMessage ::
  "Env \<Rightarrow> MessageAttributesType \<Rightarrow> MessageReceiptAttributesType Collection
     \<Rightarrow> MessageReceiptModel list \<times> MessageReceiptAttributesType Collection" where
  "forMessage env message this =
     (if \<not> isOutgoing message \<and> \<not> isStory message then ([], this)
      else
        let ourAci = getCheckedAci env;
            sourceServiceId' = getSourceServiceId env message
        in if Some ourAci \<noteq> sourceServiceId' then ([], this)
           else
             let sentAt = getMessageSentTimestamp env message;
                 receipts = filter (\<lambda>receipt. messageSentAt (attributes receipt) = sentAt) this;
                 this' = (if receipts \<noteq> [] then collection_remove receipts this else this)
             in (filter (\<lambda>receipt. \<not> shouldDropReceipt env receipt message) receipts, this'))"

subsection \<open>\<open>MessageReceipts.updateMessageSendState\<close>\<close>

text \<open>
  What the controller leaves behind: the collection itself, the messages handed to
  \<open>queueUpdateMessage\<close>, the conversations whose \<open>debouncedUpdateLastMessage\<close> was called,
  and the items added to \<open>deleteSentProtoBatcher\<close>, each oldest first.
\<close>

record DeleteSentProtoRecipientOptionsType =
  dsp_timestamp :: int
  recipientServiceId :: string
  deviceId :: int

record ReceiptsState =
  receipts :: "MessageReceiptAttributesType Collection"
  queuedUpdates :: "MessageAttributesType list"
  leftPaneUpdates :: "string list"
  sentProtoDeletes :: "DeleteSentProtoRecipientOptionsType list"

text \<open>The callback of \<open>editHistory.map\<close>.\<close>

definition mergeIntoEdit :: "Reducer \<Rightarrow> MessageReceiptModel \<Rightarrow> EditHistoryType \<Rightarrow> EditHistoryType" where
  "mergeIntoEdit red receipt edit =
     (if messageSentAt (attributes receipt) \<noteq> edit_timestamp edit then edit
      else
        let oldSendStateByConversationId =
              (case edit_sendStateByConversationId edit of None \<Rightarrow> Map.empty | Some m \<Rightarrow> m);
            newSendStateByConversationId =
              getNewSendStateByConversationId red oldSendStateByConversationId receipt
        in edit\<lparr>edit_sendStateByConversationId := Some newSendStateByConversationId\<rparr>)"

text \<open>
  The two merges (edit history, then top level) with the \<open>hasChanges\<close> flag; \<open>isEqual\<close> is
  structural equality.
\<close>

definition mergeReceipt ::
  "Reducer \<Rightarrow> MessageReceiptModel \<Rightarrow> MessageAttributesType \<Rightarrow> MessageAttributesType \<times> bool" where
  "mergeReceipt red receipt message =
     (let messageSentAt' = messageSentAt (attributes receipt);
          editHistory' = (case editHistory message of None \<Rightarrow> [] | Some es \<Rightarrow> es);
          newEditHistory = map (mergeIntoEdit red receipt) editHistory';
          changed1 = (newEditHistory \<noteq> editHistory');
          message1 = (if changed1 then message\<lparr>editHistory := Some newEditHistory\<rparr> else message);
          editMessageTimestamp' = editMessageTimestamp message1
      in if messageSentAt' = timestamp message1 \<or> Some messageSentAt' = editMessageTimestamp'
         then
           let oldSendStateByConversationId =
                 (case sendStateByConversationId message1 of None \<Rightarrow> Map.empty | Some m \<Rightarrow> m);
               newSendStateByConversationId =
                 getNewSendStateByConversationId red oldSendStateByConversationId receipt
           in if oldSendStateByConversationId \<noteq> newSendStateByConversationId
              then (message1\<lparr>sendStateByConversationId := Some newSendStateByConversationId\<rparr>,
                    True)
              else (message1, changed1)
         else (message1, changed1))"

text \<open>The block under \<open>if (hasChanges)\<close>.\<close>

definition notifyChanges :: "Env \<Rightarrow> MessageAttributesType \<Rightarrow> ReceiptsState \<Rightarrow> ReceiptsState" where
  "notifyChanges env message st =
     (let st1 = st\<lparr>queuedUpdates := queuedUpdates st @ [message]\<rparr>;
          conversation = ConversationController_get env (conversationId message);
          updateLeftPane =
            (case conversation of None \<Rightarrow> False | Some c \<Rightarrow> debouncedUpdateLastMessage c)
      in if updateLeftPane
         then st1\<lparr>leftPaneUpdates := leftPaneUpdates st1 @ [conversationId message]\<rparr>
         else st1)"

text \<open>
  The cleanup request at the end of \<open>updateMessageSendState\<close>. Whether the batcher is
  flushed at once (under \<open>window.SignalCI\<close>) is a matter of timing and is not modelled.
\<close>

definition queueSentProtoDelete ::
  "Env \<Rightarrow> MessageReceiptModel \<Rightarrow> MessageAttributesType \<Rightarrow> ReceiptsState \<Rightarrow> ReceiptsState" where
  "queueSentProtoDelete env receipt message st =
     (let sourceConversationId' = sourceConversationId (attributes receipt);
          type' = type (attributes receipt)
      in if (type' = Delivery
               \<and> wasDeliveredWithSealedSender env sourceConversationId' message
               \<and> wasSentEncrypted (attributes receipt))
            \<or> type' = MessageReceiptType.Read
         then
           let recipient = ConversationController_get env sourceConversationId';
               recipientServiceId' =
                 (case recipient of None \<Rightarrow> None | Some c \<Rightarrow> getServiceId c);
               deviceId' = sourceDevice (attributes receipt)
           in (case recipientServiceId' of
                 Some sid \<Rightarrow>
                   if sid \<noteq> [] \<and> deviceId' \<noteq> 0
                   then st\<lparr>sentProtoDeletes := sentProtoDeletes st @
                          [\<lparr>dsp_timestamp = messageSentAt (attributes receipt),
                            recipientServiceId = sid, deviceId = deviceId'\<rparr>]\<rparr>
                   else st
               | None \<Rightarrow> st)
         else st)"

text \<open>The method returns the message model as it leaves it, and the state.\<close>

definition updateMessageSendState ::
  "Env \<Rightarrow> MessageReceiptModel \<Rightarrow> MessageAttributesType \<Rightarrow> ReceiptsState
     \<Rightarrow> MessageAttributesType \<times> ReceiptsState" where
  "updateMessageSendState env receipt message st =
     (if shouldDropReceipt env receipt message then (message, st)
      else
        let (message', hasChanges) = mergeReceipt (reducer env) receipt message;
            st1 = (if hasChanges then notifyChanges env message' st else st)
        in (message', queueSentProtoDelete env receipt message' st1))"

subsection \<open>\<open>MessageReceipts.onReceipt\<close>\<close>

text \<open>The filter that selects the story copies when no single target was found.\<close>

definition isStoryTarget :: "string \<Rightarrow> MessageAttributesType \<Rightarrow> bool" where
  "isStoryTarget sourceConversationId' item =
     (truthy (storyDistributionListId item)
      \<and> (case sendStateByConversationId item of
            None \<Rightarrow> False
          | Some m \<Rightarrow> \<not> truthy_bool (deletedForEveryone item) \<and> m sourceConversationId' \<noteq> None))"

text \<open>
  \<open>Promise.all\<close> over \<open>targetMessages.map\<close>: each call runs up to its first \<open>await\<close> (the
  batcher) before the next one starts, so the effects happen in list order.
\<close>

definition updateAll ::
  "Env \<Rightarrow> MessageReceiptModel \<Rightarrow> MessageAttributesType list \<Rightarrow> ReceiptsState \<Rightarrow> ReceiptsState" where
  "updateAll env receipt targetMessages st =
     foldl (\<lambda>s msg. snd (updateMessageSendState env receipt (register env (id' msg) msg) s))
       st targetMessages"

text \<open>
  A storage failure is caught by the \<open>try\<close> block: the method logs it and returns, with the
  state as it was when the failure occurred.
\<close>

definition onReceipt :: "Env \<Rightarrow> MessageReceiptModel \<Rightarrow> ReceiptsState \<Rightarrow> ReceiptsState" where
  "onReceipt env receipt st =
     (let messageSentAt' = messageSentAt (attributes receipt);
          sourceConversationId' = sourceConversationId (attributes receipt);
          sourceServiceId' = sourceServiceId (attributes receipt)
      in case getMessagesBySentAt env messageSentAt' of
           Inl e \<Rightarrow> st
         | Inr messages \<Rightarrow>
             (case getTargetMessage env sourceConversationId' sourceServiceId' messages of
                Inl e \<Rightarrow> st
              | Inr (Some message) \<Rightarrow>
                  let st1 = snd (updateMessageSendState env receipt message st)
                  in st1\<lparr>receipts := collection_remove [receipt] (receipts st1)\<rparr>
              | Inr None \<Rightarrow>
                  let targetMessages = filter (isStoryTarget sourceConversationId') messages
                  in if targetMessages = [] then st
                     else
                       let st1 = updateAll env receipt targetMessages st
                       in st1\<lparr>receipts := collection_remove [receipt] (receipts st1)\<rparr>))"

section \<open>The view-once-open syncs module\<close>

record ViewOnceOpenSyncAttributesType =
  sync_source :: "string option"
  sync_sourceAci :: string
  sync_timestamp :: int

type_synonym ViewOnceOpenSyncModel = "ViewOnceOpenSyncAttributesType Model"

record SyncsState =
  syncs :: "ViewOnceOpenSyncAttributesType Collection"
  markedViewed :: "MessageAttributesType list"

definition syncMatches :: "ViewOnceOpenSyncModel \<Rightarrow> MessageAttributesType \<Rightarrow> bool" where
  "syncMatches sync item =
     (let itemSourceAci = msg_sourceServiceId item;
          syncSourceAci = Some (sync_sourceAci (attributes sync));
          itemSource = msg_source item;
          syncSource = sync_source (attributes sync)
      in (truthy itemSourceAci \<and> truthy syncSourceAci \<and> itemSourceAci = syncSourceAci)
         \<or> (truthy itemSource \<and> truthy syncSource \<and> itemSource = syncSource))"

definition onSync :: "Env \<Rightarrow> ViewOnceOpenSyncModel \<Rightarrow> SyncsState \<Rightarrow> SyncsState" where
  "onSync env sync st =
     (case getMessagesBySentAt env (sync_timestamp (attributes sync)) of
        Inl e \<Rightarrow> st
      | Inr messages \<Rightarrow>
          (case find (syncMatches sync) messages of
             None \<Rightarrow> st
           | Some found \<Rightarrow>
               let message = register env (id' found) found
               in (case markViewOnceMessageViewed env message of
                     Some e \<Rightarrow> st
                   | None \<Rightarrow>
                       st\<lparr>markedViewed := markedViewed st @ [message],
                          syncs := collection_remove [sync] (syncs st)\<rparr>)))"

section \<open>The message requests module\<close>

record MessageRequestAttributesType =
  threadE164 :: "string option"
  threadAci :: "string option"
  groupV2Id :: "string option"
  requestType :: int

type_synonym MessageRequestModel = "MessageRequestAttributesType Model"

text \<open>
  \<open>requests\<close> is the collection; \<open>lookups\<close> lists the arguments of the calls to
  \<open>ConversationController.lookupOrCreate\<close>, and \<open>appliedResponses\<close> the conversations that
  received \<open>applyMessageRequestResponse\<close> with the response type.
\<close>

record RequestsState =
  requests :: "MessageRequestAttributesType Collection"
  lookups :: "(string option \<times> string option) list"
  appliedResponses :: "(string \<times> int) list"

text \<open>\<open>findWhere(attrs)\<close> is the first model whose attributes agree with \<open>attrs\<close>.\<close>

definition findWhere ::
  "('a \<Rightarrow> string option) \<Rightarrow> string option \<Rightarrow> 'a Collection \<Rightarrow> 'a Model option" where
  "findWhere field v this = find (\<lambda>m. field (attributes m) = v) this"

definition forConversation ::
  "ConversationModel \<Rightarrow> MessageRequestAttributesType Collection
     \<Rightarrow> MessageRequestModel option \<times> MessageRequestAttributesType Collection" where
  "forConversation conversation this =
     (case (if truthy (e164 conversation)
            then findWhere threadE164 (e164 conversation) this else None) of
        Some syncByE164 \<Rightarrow> (Some syncByE164, collection_remove [syncByE164] this)
      | None \<Rightarrow>
          (case (if truthy (getServiceId conversation)
                 then findWhere threadAci (getServiceId conversation) this else None) of
             Some syncByAci \<Rightarrow> (Some syncByAci, collection_remove [syncByAci] this)
           | None \<Rightarrow>
               (case (if truthy (groupId conversation)
                      then findWhere groupV2Id (groupId conversation) this else None) of
                  Some syncByGroupId \<Rightarrow>
                    (Some syncByGroupId, collection_remove [syncByGroupId] this)
                | None \<Rightarrow> (None, this))))"

text \<open>The conversation \<open>onResponse\<close> settles on, with the state recording the lookup.\<close>

definition responseConversation ::
  "Env \<Rightarrow> MessageRequestModel \<Rightarrow> RequestsState \<Rightarrow> ConversationModel option \<times> RequestsState" where
  "responseConversation env sync st =
     (let threadE164' = threadE164 (attributes sync);
          threadAci' = threadAci (attributes sync);
          groupV2Id' = groupV2Id (attributes sync);
          conversation =
            (case groupV2Id' of
               None \<Rightarrow> None
             | Some g \<Rightarrow> if g \<noteq> [] then ConversationController_get env g else None)
      in if conversation = None \<and> (truthy threadE164' \<or> truthy threadAci')
         then (lookupOrCreate env threadE164' threadAci',
               st\<lparr>lookups := lookups st @ [(threadE164', threadAci')]\<rparr>)
         else (conversation, st))"

definition onResponse :: "Env \<Rightarrow> MessageRequestModel \<Rightarrow> RequestsState \<Rightarrow> RequestsState" where
  "onResponse env sync st =
     (let (conversation, st1) = responseConversation env sync st
      in case conversation of
           None \<Rightarrow> st1
         | Some c \<Rightarrow>
             st1\<lparr>appliedResponses :=
                    appliedResponses st1 @ [(conv_id c, requestType (attributes sync))],
                 requests := collection_remove [sync] (requests st1)\<rparr>)"

section \<open>Sample data\<close>

text \<open>Concrete collaborators, messages and events on which the theorems below are evaluated.\<close>

definition sampleConversation :: ConversationModel where
  "sampleConversation =
     \<lparr>conv_id = ''conv-a'', e164 = Some ''+15550100'', getServiceId = Some ''aci-bob'',
      groupId = None, debouncedUpdateLastMessage = True\<rparr>"

definition groupConversation :: ConversationModel where
  "groupConversation =
     \<lparr>conv_id = ''group-1'', e164 = None, getServiceId = None,
      groupId = Some ''group-1'', debouncedUpdateLastMessage = True\<rparr>"

definition sampleMessage :: MessageAttributesType where
  "sampleMessage =
     \<lparr>id' = ''m1'', messageType = Outgoing, conversationId = ''conv-a'', timestamp = 100,
      sent_at = 100, msg_source = None, msg_sourceServiceId = Some ''aci-me'',
      editMessageTimestamp = None,
      editHistory = Some [\<lparr>edit_timestamp = 100, edit_sendStateByConversationId = None\<rparr>,
                          \<lparr>edit_timestamp = 90, edit_sendStateByConversationId = None\<rparr>],
      sendStateByConversationId = None,
      storyDistributionListId = None, deletedForEveryone = None,
      unidentifiedDeliveries = None\<rparr>"

definition storyCopy :: "string \<Rightarrow> MessageAttributesType" where
  "storyCopy i =
     \<lparr>id' = i, messageType = Story, conversationId = ''conv-me'', timestamp = 300,
      sent_at = 300, msg_source = None, msg_sourceServiceId = Some ''aci-me'',
      editMessageTimestamp = None, editHistory = None,
      sendStateByConversationId = Some [''conv-a'' \<mapsto> \<lparr>status = Sent, updatedAt = None\<rparr>],
      storyDistributionListId = Some ''list-1'', deletedForEveryone = None,
      unidentifiedDeliveries = None\<rparr>"

definition sampleEnv :: Env where
  "sampleEnv =
     \<lparr>read_receipt_setting = Some False,
      getStoryViewReceiptsEnabled = True,
      getCheckedAci = ''aci-me'',
      getSourceServiceId = msg_sourceServiceId,
      getMessageSentTimestamp = sent_at,
      getMessagesBySentAt =
        (\<lambda>t. Inr (if t = 100 then [sampleMessage]
                  else if t = 300 then [storyCopy ''s1'', storyCopy ''s2''] else [])),
      getAllGroupsInvolvingServiceId = (\<lambda>s. Inr []),
      register = (\<lambda>i m. m),
      ConversationController_get =
        (\<lambda>c. if c = ''conv-a'' then Some sampleConversation
             else if c = ''group-1'' then Some groupConversation else None),
      getConversationId = (\<lambda>s. None),
      lookupOrCreate = (\<lambda>e a. if e = Some ''+15550100'' then Some sampleConversation else None),
      reducer = sendStateReducer,
      markViewOnceMessageViewed = (\<lambda>m. None)\<rparr>"

definition sampleReceipt :: "nat \<Rightarrow> int \<Rightarrow> MessageReceiptType \<Rightarrow> MessageReceiptModel" where
  "sampleReceipt c sentAt t =
     \<lparr>cid = c,
      attributes = \<lparr>messageSentAt = sentAt, receiptTimestamp = 150, sourceServiceId = ''aci-bob'',
                    sourceConversationId = ''conv-a'', sourceDevice = 1, type = t,
                    wasSentEncrypted = False\<rparr>\<rparr>"

definition emptyReceiptsState :: "MessageReceiptModel list \<Rightarrow> ReceiptsState" where
  "emptyReceiptsState c = \<lparr>receipts = c, queuedUpdates = [], leftPaneUpdates = [], sentProtoDeletes = []\<rparr>"

definition sampleSync :: ViewOnceOpenSyncModel where
  "sampleSync = \<lparr>cid = 1, attributes = \<lparr>sync_source = None, sync_sourceAci = ''aci-bob'', sync_timestamp = 200\<rparr>\<rparr>"

definition sampleRequest :: MessageRequestModel where
  "sampleRequest =
     \<lparr>cid = 1, attributes = \<lparr>threadE164 = Some ''+15550100'', threadAci = None,
                              groupV2Id = Some ''group-1'', requestType = 1\<rparr>\<rparr>"

definition groupMessage :: MessageAttributesType where
  "groupMessage = sampleMessage\<lparr>id' := ''m2'', conversationId := ''group-1''\<rparr>"

definition incomingMessage :: MessageAttributesType where
  "incomingMessage = sampleMessage\<lparr>id' := ''m0'', messageType := Incoming, msg_sourceServiceId := Some ''aci-bob''\<rparr>"

definition storyReceipt :: MessageReceiptModel where
  "storyReceipt = sampleReceipt 7 300 View"

definition emptyRequestsState :: "MessageRequestModel list \<Rightarrow> RequestsState" where
  "emptyRequestsState c = \<lparr>requests = c, lookups = [], appliedResponses = []\<rparr>"

definition requestByAci :: MessageRequestModel where
  "requestByAci =
     \<lparr>cid = 1, attributes = \<lparr>threadE164 = None, threadAci = Some ''aci-bob'',
                              groupV2Id = None, requestType = 1\<rparr>\<rparr>"

definition requestByE164 :: MessageRequestModel where
  "requestByE164 =
     \<lparr>cid = 2, attributes = \<lparr>threadE164 = Some ''+15550100'', threadAci = None,
                              groupV2Id = None, requestType = 2\<rparr>\<rparr>"

section \<open>Auxiliary lemmas\<close>

lemma bumpUpdatedAt_idem: "bumpUpdatedAt (bumpUpdatedAt u ts) ts = bumpUpdatedAt u ts"
  by (simp add: bumpUpdatedAt_def split: option.splits)

lemma bumpUpdatedAt_Some: "bumpUpdatedAt (Some ts) ts = Some ts"
  by (simp add: bumpUpdatedAt_def)

lemma sendStateReducer_idem: "sendStateReducer (sendStateReducer s a) a = sendStateReducer s a"
  by (cases "action_type a"; cases "status s")
     (simp_all add: sendStateReducer_def Let_def bumpUpdatedAt_idem bumpUpdatedAt_Some)

lemma getNew_idem:
  assumes "\<And>s a. red (red s a) a = red s a"
  shows "getNewSendStateByConversationId red (getNewSendStateByConversationId red m r) r
         = getNewSendStateByConversationId red m r"
  using assms by (simp add: getNewSendStateByConversationId_def Let_def)

lemma getNew_nonempty: "getNewSendStateByConversationId red m r \<noteq> Map.empty"
  by (simp add: getNewSendStateByConversationId_def Let_def)

lemma getNew_dom: "dom (getNewSendStateByConversationId red m r) = insert (sourceConversationId (attributes r)) (dom m)"
  by (simp add: getNewSendStateByConversationId_def Let_def)

lemma mergeIntoEdit_timestamp: "edit_timestamp (mergeIntoEdit red r e) = edit_timestamp e"
  by (simp add: mergeIntoEdit_def Let_def)

lemma mergeIntoEdit_idem:
  assumes "\<And>s a. red (red s a) a = red s a"
  shows "mergeIntoEdit red r (mergeIntoEdit red r e) = mergeIntoEdit red r e"
  using getNew_idem[of red, OF assms] by (simp add: mergeIntoEdit_def Let_def)

lemma mergeReceipt_editHistory:
  "editHistory (fst (mergeReceipt red r msg)) = map_option (map (mergeIntoEdit red r)) (editHistory msg)"
  by (cases "editHistory msg") (auto simp: mergeReceipt_def Let_def)

lemma mergeReceipt_sendState:
  "sendStateByConversationId (fst (mergeReceipt red r msg)) =
     (if messageSentAt (attributes r) = timestamp msg \<or> Some (messageSentAt (attributes r)) = editMessageTimestamp msg
      then Some (getNewSendStateByConversationId red (case sendStateByConversationId msg of None \<Rightarrow> Map.empty | Some m \<Rightarrow> m) r)
      else sendStateByConversationId msg)"
  using getNew_nonempty[of red Map.empty r]
  by (cases "sendStateByConversationId msg") (auto simp: mergeReceipt_def Let_def)

lemma mergeReceipt_frame:
  "fst (mergeReceipt red r msg) = msg\<lparr>editHistory := editHistory (fst (mergeReceipt red r msg)),
      sendStateByConversationId := sendStateByConversationId (fst (mergeReceipt red r msg))\<rparr>"
  by (auto simp: mergeReceipt_def Let_def)

lemma message_update_eq:
  "msg\<lparr>editHistory := a, sendStateByConversationId := b\<rparr> = msg
     \<longleftrightarrow> a = editHistory msg \<and> b = sendStateByConversationId msg"
  by (cases msg) auto

lemma mergeReceipt_snd:
  "snd (mergeReceipt red r msg) \<longleftrightarrow>
     map (mergeIntoEdit red r) (case editHistory msg of None \<Rightarrow> [] | Some es \<Rightarrow> es)
       \<noteq> (case editHistory msg of None \<Rightarrow> [] | Some es \<Rightarrow> es)
     \<or> ((messageSentAt (attributes r) = timestamp msg
          \<or> Some (messageSentAt (attributes r)) = editMessageTimestamp msg)
        \<and> (case sendStateByConversationId msg of None \<Rightarrow> Map.empty | Some m \<Rightarrow> m)
            \<noteq> getNewSendStateByConversationId red
                 (case sendStateByConversationId msg of None \<Rightarrow> Map.empty | Some m \<Rightarrow> m) r)"
  by (auto simp: mergeReceipt_def Let_def)

lemma mergeReceipt_changed:
  "snd (mergeReceipt red r msg) \<longleftrightarrow> fst (mergeReceipt red r msg) \<noteq> msg"
proof -
  let ?m' = "fst (mergeReceipt red r msg)"
  have e: "editHistory ?m' = editHistory msg \<longleftrightarrow>
     map (mergeIntoEdit red r) (case editHistory msg of None \<Rightarrow> [] | Some es \<Rightarrow> es)
       = (case editHistory msg of None \<Rightarrow> [] | Some es \<Rightarrow> es)"
    by (cases "editHistory msg") (simp_all add: mergeReceipt_editHistory)
  have s: "sendStateByConversationId ?m' = sendStateByConversationId msg \<longleftrightarrow>
     \<not> ((messageSentAt (attributes r) = timestamp msg
          \<or> Some (messageSentAt (attributes r)) = editMessageTimestamp msg)
        \<and> (case sendStateByConversationId msg of None \<Rightarrow> Map.empty | Some m \<Rightarrow> m)
            \<noteq> getNewSendStateByConversationId red
                 (case sendStateByConversationId msg of None \<Rightarrow> Map.empty | Some m \<Rightarrow> m) r)"
    using getNew_nonempty[of red Map.empty r]
    by (cases "sendStateByConversationId msg") (auto simp: mergeReceipt_sendState)
  have "?m' = msg \<longleftrightarrow> editHistory ?m' = editHistory msg
          \<and> sendStateByConversationId ?m' = sendStateByConversationId msg"
    using mergeReceipt_frame[of red r msg] message_update_eq by metis
  then show ?thesis
    unfolding mergeReceipt_snd e s by blast
qed

lemma mergeReceipt_timestamps:
  "timestamp (fst (mergeReceipt red r msg)) = timestamp msg"
  "editMessageTimestamp (fst (mergeReceipt red r msg)) = editMessageTimestamp msg"
  "conversationId (fst (mergeReceipt red r msg)) = conversationId msg"
  by (auto simp: mergeReceipt_def Let_def)

lemma mergeReceipt_idem:
  assumes "\<And>s a. red (red s a) a = red s a"
  shows "mergeReceipt red r (fst (mergeReceipt red r msg)) = (fst (mergeReceipt red r msg), False)"
proof -
  let ?m' = "fst (mergeReceipt red r msg)"
  have "\<not> snd (mergeReceipt red r ?m')"
    unfolding mergeReceipt_snd
    using getNew_idem[of red, OF assms] mergeIntoEdit_idem[of red, OF assms]
    by (cases "editHistory msg")
       (auto simp: mergeReceipt_editHistory mergeReceipt_sendState mergeReceipt_timestamps)
  moreover from this have "fst (mergeReceipt red r ?m') = ?m'"
    by (simp add: mergeReceipt_changed)
  ultimately show ?thesis by (simp add: prod_eq_iff)
qed

lemma queueSentProtoDelete_frame:
  "receipts (queueSentProtoDelete env r m st) = receipts st"
  "queuedUpdates (queueSentProtoDelete env r m st) = queuedUpdates st"
  "leftPaneUpdates (queueSentProtoDelete env r m st) = leftPaneUpdates st"
  by (auto simp: queueSentProtoDelete_def Let_def split: option.splits)

lemma notifyChanges_effects:
  "receipts (notifyChanges env m st) = receipts st"
  "queuedUpdates (notifyChanges env m st) = queuedUpdates st @ [m]"
  "leftPaneUpdates (notifyChanges env m st) = leftPaneUpdates st @
     (if (case ConversationController_get env (conversationId m) of
            None \<Rightarrow> False | Some c \<Rightarrow> debouncedUpdateLastMessage c)
      then [conversationId m] else [])"
  by (auto simp: notifyChanges_def Let_def split: option.splits)

lemma updateMessageSendState_fst:
  "fst (updateMessageSendState env r m st) =
     (if shouldDropReceipt env r m then m else fst (mergeReceipt (reducer env) r m))"
  by (simp add: updateMessageSendState_def Let_def split: prod.splits)

lemma updateMessageSendState_receipts:
  "receipts (snd (updateMessageSendState env r m st)) = receipts st"
  by (simp add: updateMessageSendState_def Let_def queueSentProtoDelete_frame notifyChanges_effects
      split: prod.splits)

lemma updateMessageSendState_queued:
  "queuedUpdates (snd (updateMessageSendState env r m st)) = queuedUpdates st @
     (if fst (updateMessageSendState env r m st) \<noteq> m
      then [fst (updateMessageSendState env r m st)] else [])"
proof (cases "shouldDropReceipt env r m")
  case True
  then show ?thesis by (simp add: updateMessageSendState_def)
next
  case False
  obtain m' ch where mr: "mergeReceipt (reducer env) r m = (m', ch)" by fastforce
  have "ch \<longleftrightarrow> m' \<noteq> m" using mergeReceipt_changed[of "reducer env" r m] mr by simp
  then show ?thesis using False mr
    by (simp add: updateMessageSendState_def Let_def queueSentProtoDelete_frame notifyChanges_effects)
qed

lemma updateMessageSendState_leftPane:
  "leftPaneUpdates (snd (updateMessageSendState env r m st)) = leftPaneUpdates st @
     (if fst (updateMessageSendState env r m st) \<noteq> m
         \<and> (case ConversationController_get env (conversationId m) of
              None \<Rightarrow> False | Some c \<Rightarrow> debouncedUpdateLastMessage c)
      then [conversationId m] else [])"
proof (cases "shouldDropReceipt env r m")
  case True
  then show ?thesis by (simp add: updateMessageSendState_def)
next
  case False
  obtain m' ch where mr: "mergeReceipt (reducer env) r m = (m', ch)" by fastforce
  have "ch \<longleftrightarrow> m' \<noteq> m" using mergeReceipt_changed[of "reducer env" r m] mr by simp
  moreover have "conversationId m' = conversationId m"
    using mergeReceipt_timestamps(3)[of "reducer env" r m] mr by simp
  ultimately show ?thesis using False mr
    by (simp add: updateMessageSendState_def Let_def queueSentProtoDelete_frame notifyChanges_effects)
qed

lemma updateAll_Nil: "updateAll env r [] st = st"
  by (simp add: updateAll_def)

lemma updateAll_Cons:
  "updateAll env r (t # ts) st =
     updateAll env r ts (snd (updateMessageSendState env r (register env (id' t) t) st))"
  by (simp add: updateAll_def)

lemma updateAll_receipts: "receipts (updateAll env r ts st) = receipts st"
  by (induction ts arbitrary: st) (simp_all add: updateAll_Nil updateAll_Cons updateMessageSendState_receipts)

lemma updateAll_queued:
  "queuedUpdates (updateAll env r ts st) = queuedUpdates st @
     concat (map (\<lambda>t. let model = register env (id' t) t;
                          model' = fst (updateMessageSendState env r model st0)
                      in if model' \<noteq> model then [model'] else []) ts)"
proof (induction ts arbitrary: st)
  case Nil
  then show ?case by (simp add: updateAll_Nil)
next
  case (Cons t ts)
  have "fst (updateMessageSendState env r (register env (id' t) t) st)
        = fst (updateMessageSendState env r (register env (id' t) t) st0)"
    by (simp add: updateMessageSendState_fst)
  then show ?case
    by (simp add: updateAll_Cons Cons.IH updateMessageSendState_queued Let_def)
qed

lemma collection_remove_filter:
  assumes "distinct (map cid c)"
  shows "collection_remove (filter P c) c = filter (\<lambda>m. \<not> P m) c"
proof -
  have inj: "inj_on cid (set c)" using assms by (simp add: distinct_map)
  have "\<And>m. m \<in> set c \<Longrightarrow> (cid m \<notin> set (map cid (filter P c))) = (\<not> P m)"
  proof -
    fix m assume m: "m \<in> set c"
    show "(cid m \<notin> set (map cid (filter P c))) = (\<not> P m)"
    proof
      assume "cid m \<notin> set (map cid (filter P c))"
      then show "\<not> P m" using m by auto
    next
      assume np: "\<not> P m"
      show "cid m \<notin> set (map cid (filter P c))"
      proof
        assume "cid m \<in> set (map cid (filter P c))"
        then obtain x where x: "x \<in> set c" "P x" "cid x = cid m" by auto
        then have "x = m" using inj m by (auto dest: inj_onD)
        then show False using np x by simp
      qed
    qed
  qed
  then show ?thesis
    unfolding collection_remove_def by (auto intro: filter_cong)
qed

lemma collection_remove_self: "list_all (\<lambda>m. cid m \<noteq> cid r) (collection_remove [r] c)"
  by (simp add: collection_remove_def list_all_iff)

lemma onReceipt_receipts:
  "receipts (onReceipt env r st) =
     (case getMessagesBySentAt env (messageSentAt (attributes r)) of
        Inl e \<Rightarrow> receipts st
      | Inr messages \<Rightarrow>
          (case getTargetMessage env (sourceConversationId (attributes r))
                  (sourceServiceId (attributes r)) messages of
             Inl e \<Rightarrow> receipts st
           | Inr (Some message) \<Rightarrow> collection_remove [r] (receipts st)
           | Inr None \<Rightarrow>
               if filter (isStoryTarget (sourceConversationId (attributes r))) messages = []
               then receipts st
               else collection_remove [r] (receipts st)))"
  by (simp add: onReceipt_def Let_def updateMessageSendState_receipts updateAll_receipts
      split: sum.splits option.splits)

lemma onSync_syncs:
  "syncs (onSync env s st) =
     (case getMessagesBySentAt env (sync_timestamp (attributes s)) of
        Inl e \<Rightarrow> syncs st
      | Inr messages \<Rightarrow>
          (case find (syncMatches s) messages of
             None \<Rightarrow> syncs st
           | Some found \<Rightarrow>
               (case markViewOnceMessageViewed env (register env (id' found) found) of
                  Some e \<Rightarrow> syncs st
                | None \<Rightarrow> collection_remove [s] (syncs st))))"
  by (simp add: onSync_def Let_def split: sum.splits option.splits)

lemma forMessage_guard:
  "\<not> (isOutgoing m \<or> isStory m) \<or> Some (getCheckedAci env) \<noteq> getSourceServiceId env m
     \<Longrightarrow> forMessage env m c = ([], c)"
  by (auto simp: forMessage_def Let_def)

lemma forMessage_own:
  assumes "isOutgoing m \<or> isStory m" "Some (getCheckedAci env) = getSourceServiceId env m"
    "distinct (map cid c)"
  shows "forMessage env m c =
    (filter (\<lambda>r. \<not> shouldDropReceipt env r m)
       (filter (\<lambda>r. messageSentAt (attributes r) = getMessageSentTimestamp env m) c),
     filter (\<lambda>r. messageSentAt (attributes r) \<noteq> getMessageSentTimestamp env m) c)"
proof -
  let ?P = "\<lambda>r. messageSentAt (attributes r) = getMessageSentTimestamp env m"
  have "filter ?P c = [] \<Longrightarrow> filter (\<lambda>r. \<not> ?P r) c = c"
    by (induction c) (auto split: if_splits)
  then show ?thesis
    using assms collection_remove_filter[OF assms(3), of ?P]
    by (auto simp: forMessage_def Let_def)
qed

lemma find_first:
  "xs = pre @ x # post \<Longrightarrow> P x \<Longrightarrow> list_all (\<lambda>y. \<not> P y) pre \<Longrightarrow> find P xs = Some x"
  by (induction pre arbitrary: xs) auto

lemma find_none: "list_all (\<lambda>y. \<not> P y) xs \<Longrightarrow> find P xs = None"
  by (induction xs) auto

lemma mergeIntoEdit_alt:
  "mergeIntoEdit red r =
     (\<lambda>edit. if edit_timestamp edit = messageSentAt (attributes r)
        then edit\<lparr>edit_sendStateByConversationId :=
               Some (getNewSendStateByConversationId red
                 (case edit_sendStateByConversationId edit of None \<Rightarrow> Map.empty | Some m \<Rightarrow> m) r)\<rparr>
        else edit)"
  by (auto simp: mergeIntoEdit_def Let_def fun_eq_iff)

lemma isStoryTarget_iff:
  "isStoryTarget src item \<longleftrightarrow>
     truthy (storyDistributionListId item) \<and> \<not> truthy_bool (deletedForEveryone item)
     \<and> (\<exists>m. sendStateByConversationId item = Some m \<and> src \<in> dom m)"
  by (cases "sendStateByConversationId item") (auto simp: isStoryTarget_def)

lemma isStoryTarget_alt:
  "isStoryTarget src =
     (\<lambda>item. truthy (storyDistributionListId item) \<and> \<not> truthy_bool (deletedForEveryone item)
        \<and> (\<exists>m. sendStateByConversationId item = Some m \<and> src \<in> dom m))"
  by (simp add: fun_eq_iff isStoryTarget_iff)

lemma mergeReceipt_id: "id' (fst (mergeReceipt red r msg)) = id' msg"
  by (auto simp: mergeReceipt_def Let_def)

lemma onReceipt_unmatched:
  assumes "getMessagesBySentAt env (messageSentAt (attributes r)) = Inr messages"
    and "getTargetMessage env (sourceConversationId (attributes r))
           (sourceServiceId (attributes r)) messages = Inr None"
  shows "onReceipt env r st =
     (let targetMessages = filter (isStoryTarget (sourceConversationId (attributes r))) messages
      in if targetMessages = [] then st
         else (updateAll env r targetMessages st)\<lparr>receipts := collection_remove [r] (receipts st)\<rparr>)"
  using assms by (simp add: onReceipt_def Let_def updateAll_receipts)

lemma story_messages: "getMessagesBySentAt sampleEnv (messageSentAt (attributes storyReceipt))
             = Inr [storyCopy ''s1'', storyCopy ''s2'']"
    by (simp add: sampleEnv_def storyReceipt_def sampleReceipt_def)

lemma story_no_single_target: "getTargetMessage sampleEnv (sourceConversationId (attributes storyReceipt))
             (sourceServiceId (attributes storyReceipt)) [storyCopy ''s1'', storyCopy ''s2'']
             = Inr None"
    by (simp add: getTargetMessage_def sampleEnv_def storyReceipt_def sampleReceipt_def
        storyCopy_def isOutgoing_def isStory_def)

lemma story_receipt_kept: "\<not> shouldDropReceipt sampleEnv storyReceipt (storyCopy i)"
    by (simp add: shouldDropReceipt_def storyReceipt_def sampleReceipt_def storyCopy_def
        isStory_def sampleEnv_def)

lemma story_sendState: "sendStateByConversationId
              (fst (updateMessageSendState sampleEnv storyReceipt (storyCopy i) st))
            = Some [''conv-a'' \<mapsto> \<lparr>status = Viewed, updatedAt = Some 150\<rparr>]"
    using story_receipt_kept[of i]
    by (simp add: updateMessageSendState_fst mergeReceipt_sendState)
       (simp add: storyReceipt_def sampleReceipt_def storyCopy_def sampleEnv_def
          getNewSendStateByConversationId_def sendActionTypeOf_def sendStateReducer_def
          bumpUpdatedAt_def)

lemma story_id: "id' (fst (updateMessageSendState sampleEnv storyReceipt (storyCopy i) st)) = i"
    using story_receipt_kept[of i] by (simp add: updateMessageSendState_fst mergeReceipt_id) (simp add: storyCopy_def)

lemma story_changed: "fst (updateMessageSendState sampleEnv storyReceipt (storyCopy i) st) \<noteq> storyCopy i"
proof
  assume "fst (updateMessageSendState sampleEnv storyReceipt (storyCopy i) st) = storyCopy i"
  then have "sendStateByConversationId (storyCopy i)
      = Some [''conv-a'' \<mapsto> \<lparr>status = Viewed, updatedAt = Some 150\<rparr>]"
    using story_sendState[of i st] by simp
  then have "[''conv-a'' \<mapsto> \<lparr>status = Sent, updatedAt = None\<rparr>]
      = [''conv-a'' \<mapsto> \<lparr>status = Viewed, updatedAt = Some (150::int)\<rparr>]"
    by (simp add: storyCopy_def)
  then show False by (auto dest: map_upd_eqD1)
qed

lemma story_copy_selected: "truthy (storyDistributionListId (storyCopy i))
              \<and> \<not> truthy_bool (deletedForEveryone (storyCopy i))
              \<and> (\<exists>m. sendStateByConversationId (storyCopy i) = Some m
                    \<and> sourceConversationId (attributes storyReceipt) \<in> dom m)"
    by (simp add: storyCopy_def truthy_def truthy_bool_def storyReceipt_def sampleReceipt_def)

lemma sample_register: "register sampleEnv = (\<lambda>i m. m)" by (simp add: sampleEnv_def)

lemma story_filter: "filter (\<lambda>item. truthy (storyDistributionListId item)
                      \<and> \<not> truthy_bool (deletedForEveryone item)
                      \<and> (\<exists>m. sendStateByConversationId item = Some m
                               \<and> sourceConversationId (attributes storyReceipt) \<in> dom m))
             [storyCopy ''s1'', storyCopy ''s2''] = [storyCopy ''s1'', storyCopy ''s2'']"
  using story_copy_selected[of "''s1''"] story_copy_selected[of "''s2''"] by simp

lemma responseConversation_fst:
  "fst (responseConversation env sync st) =
     (case (case groupV2Id (attributes sync) of
              None \<Rightarrow> None
            | Some g \<Rightarrow> if g \<noteq> [] then ConversationController_get env g else None) of
        Some c \<Rightarrow> Some c
      | None \<Rightarrow>
          if truthy (threadE164 (attributes sync)) \<or> truthy (threadAci (attributes sync))
          then lookupOrCreate env (threadE164 (attributes sync)) (threadAci (attributes sync))
          else None)"
  by (auto simp: responseConversation_def Let_def split: option.splits)

lemma responseConversation_snd:
  "snd (responseConversation env sync st) =
     st\<lparr>lookups := lookups st @
       (if (case groupV2Id (attributes sync) of
              None \<Rightarrow> None
            | Some g \<Rightarrow> if g \<noteq> [] then ConversationController_get env g else None) = None
           \<and> (truthy (threadE164 (attributes sync)) \<or> truthy (threadAci (attributes sync)))
        then [(threadE164 (attributes sync), threadAci (attributes sync))] else [])\<rparr>"
  by (auto simp: responseConversation_def Let_def split: option.splits)

lemma onResponse_requests:
  "requests (onResponse env sync st) =
     (if fst (responseConversation env sync st) = None then requests st
      else collection_remove [sync] (requests st))"
  by (cases "responseConversation env sync st")
     (auto simp: onResponse_def responseConversation_def Let_def split: option.splits if_splits)

lemma onResponse_lookups:
  "lookups (onResponse env sync st) = lookups (snd (responseConversation env sync st))"
  by (cases "responseConversation env sync st")
     (auto simp: onResponse_def split: option.splits)

section \<open>The claims\<close>

subsection \<open>C1: what the entry points leave in the buffer\<close>

text \<open>
  Claim C1 says that after \<open>onReceipt\<close> (or \<open>onSync\<close>) has run, the event is out of
  its pending buffer whether or not a target message was found. It is not: a delivery
  receipt for sent timestamp 200, for which storage knows no message, is still in the
  collection afterwards, and so is a view-once-open sync without a matching message. Both
  methods return before \<open>this.remove\<close> when nothing matched, so the event waits for
  \<open>forMessage\<close>.
\<close>

theorem unmatched_event_stays_buffered:
  "receipts (onReceipt sampleEnv (sampleReceipt 1 200 Delivery) (emptyReceiptsState [sampleReceipt 1 200 Delivery]))
     = [sampleReceipt 1 200 Delivery]
   \<and> syncs (onSync sampleEnv sampleSync \<lparr>syncs = [sampleSync], markedViewed = []\<rparr>) = [sampleSync]"
  by (simp add: onReceipt_def onSync_def sampleEnv_def sampleReceipt_def emptyReceiptsState_def
      sampleSync_def getTargetMessage_def)

text \<open>
  C1, as the code has it: \<open>onReceipt\<close> removes the receipt from the collection exactly
  when storage answered and a target was found (a single target message, or at least one
  story copy); \<open>onSync\<close> removes the sync exactly when storage answered, a message matched
  and marking it viewed succeeded. In every other case (no target, or a caught error) the
  buffer is left as it was, with the event still in it. After a removal no model with the
  event's \<open>cid\<close> remains.
\<close>

theorem onReceipt_onSync_buffer:
  "receipts (onReceipt env r st) =
     (case getMessagesBySentAt env (messageSentAt (attributes r)) of
        Inl e \<Rightarrow> receipts st
      | Inr messages \<Rightarrow>
          (case getTargetMessage env (sourceConversationId (attributes r))
                  (sourceServiceId (attributes r)) messages of
             Inl e \<Rightarrow> receipts st
           | Inr (Some message) \<Rightarrow> collection_remove [r] (receipts st)
           | Inr None \<Rightarrow>
               if filter (isStoryTarget (sourceConversationId (attributes r))) messages = []
               then receipts st
               else collection_remove [r] (receipts st)))
   \<and> syncs (onSync env s sst) =
     (case getMessagesBySentAt env (sync_timestamp (attributes s)) of
        Inl e \<Rightarrow> syncs sst
      | Inr messages \<Rightarrow>
          (case find (syncMatches s) messages of
             None \<Rightarrow> syncs sst
           | Some found \<Rightarrow>
               (case markViewOnceMessageViewed env (register env (id' found) found) of
                  Some e \<Rightarrow> syncs sst
                | None \<Rightarrow> collection_remove [s] (syncs sst))))
   \<and> list_all (\<lambda>m. cid m \<noteq> cid r) (collection_remove [r] (receipts st))
   \<and> list_all (\<lambda>m. cid m \<noteq> cid s) (collection_remove [s] (syncs sst))"
  by (simp only: onReceipt_receipts onSync_syncs collection_remove_self simp_thms)

theorem onReceipt_onSync_buffer_witness:
  "receipts (onReceipt sampleEnv (sampleReceipt 1 100 Delivery)
       (emptyReceiptsState [sampleReceipt 1 100 Delivery, sampleReceipt 2 200 Delivery]))
     = [sampleReceipt 2 200 Delivery]"
  using onReceipt_onSync_buffer[of sampleEnv "sampleReceipt 1 100 Delivery"
      "emptyReceiptsState [sampleReceipt 1 100 Delivery, sampleReceipt 2 200 Delivery]"]
  by (simp add: sampleEnv_def sampleReceipt_def emptyReceiptsState_def getTargetMessage_def
      sampleMessage_def isOutgoing_def collection_remove_def)

subsection \<open>C2: merging the same receipt twice\<close>

text \<open>
  C2: merging a receipt action into a per-recipient send state twice gives the same state
  as merging it once; hence \<open>getNewSendStateByConversationId\<close> applied twice with the same
  receipt equals applying it once, and applying the same receipt a second time to a message
  changes neither its top-level mapping nor its edit history and reports no change. The
  reducer is the one modelled from section 4.1 of the spec.
\<close>

theorem receipt_merge_idempotent:
  "sendStateReducer (sendStateReducer s a) a = sendStateReducer s a
   \<and> getNewSendStateByConversationId sendStateReducer
       (getNewSendStateByConversationId sendStateReducer m r) r
     = getNewSendStateByConversationId sendStateReducer m r
   \<and> mergeReceipt sendStateReducer r (fst (mergeReceipt sendStateReducer r msg))
     = (fst (mergeReceipt sendStateReducer r msg), False)"
  using sendStateReducer_idem getNew_idem[of sendStateReducer] mergeReceipt_idem[of sendStateReducer]
  by simp

subsection \<open>C3: where a receipt is merged\<close>

text \<open>
  C3: for a receipt that is not dropped, the top-level mapping of the message afterwards is
  the merge of the receipt into the old mapping when the receipt's \<open>messageSentAt\<close> equals
  the message's \<open>timestamp\<close> or its \<open>editMessageTimestamp\<close>, and is the old mapping
  otherwise; independently, every edit-history revision whose timestamp equals
  \<open>messageSentAt\<close> has the receipt merged into its own mapping, and every other revision
  is unchanged.
\<close>

theorem updateMessageSendState_merges:
  assumes "\<not> shouldDropReceipt env r msg"
  shows "sendStateByConversationId (fst (updateMessageSendState env r msg st)) =
      (if messageSentAt (attributes r) = timestamp msg
          \<or> Some (messageSentAt (attributes r)) = editMessageTimestamp msg
       then Some (getNewSendStateByConversationId (reducer env)
              (case sendStateByConversationId msg of None \<Rightarrow> Map.empty | Some m \<Rightarrow> m) r)
       else sendStateByConversationId msg)
    \<and> editHistory (fst (updateMessageSendState env r msg st)) =
      map_option (map (\<lambda>edit.
          if edit_timestamp edit = messageSentAt (attributes r)
          then edit\<lparr>edit_sendStateByConversationId :=
                 Some (getNewSendStateByConversationId (reducer env)
                   (case edit_sendStateByConversationId edit of
                      None \<Rightarrow> Map.empty | Some m \<Rightarrow> m) r)\<rparr>
          else edit)) (editHistory msg)"
  using assms
  by (simp only: updateMessageSendState_fst if_False mergeReceipt_sendState
      mergeReceipt_editHistory mergeIntoEdit_alt simp_thms)

theorem updateMessageSendState_merges_witness:
  "sendStateByConversationId
     (fst (updateMessageSendState sampleEnv (sampleReceipt 1 100 Delivery) sampleMessage
            (emptyReceiptsState [])))
     = Some [''conv-a'' \<mapsto> \<lparr>status = Delivered, updatedAt = Some 150\<rparr>]
   \<and> editHistory
     (fst (updateMessageSendState sampleEnv (sampleReceipt 1 100 Delivery) sampleMessage
            (emptyReceiptsState [])))
     = Some [\<lparr>edit_timestamp = 100, edit_sendStateByConversationId =
                Some [''conv-a'' \<mapsto> \<lparr>status = Delivered, updatedAt = Some 150\<rparr>]\<rparr>,
             \<lparr>edit_timestamp = 90, edit_sendStateByConversationId = None\<rparr>]"
proof -
  have h: "\<not> shouldDropReceipt sampleEnv (sampleReceipt 1 100 Delivery) sampleMessage"
    by (simp add: shouldDropReceipt_def sampleReceipt_def)
  show ?thesis
    using updateMessageSendState_merges[OF h, of "emptyReceiptsState []"]
    by (simp add: sampleEnv_def sampleReceipt_def sampleMessage_def
        getNewSendStateByConversationId_def sendActionTypeOf_def sendStateReducer_def)
qed

subsection \<open>C4: persisting and notifying\<close>

text \<open>
  Claim C4 says that the message is persisted and the last-message notification is issued
  if and only if the merge changed a mapping. The notification needs more: with a
  conversation controller that does not know the message's conversation, a delivery
  receipt changes the sample message, the message is queued for persisting, and no
  left-pane update is issued.
\<close>

theorem changed_without_left_pane_update:
  "fst (updateMessageSendState (sampleEnv\<lparr>ConversationController_get := (\<lambda>c. None)\<rparr>)
          (sampleReceipt 1 100 Delivery) sampleMessage (emptyReceiptsState []))
     \<noteq> sampleMessage
   \<and> length (queuedUpdates (snd (updateMessageSendState
          (sampleEnv\<lparr>ConversationController_get := (\<lambda>c. None)\<rparr>)
          (sampleReceipt 1 100 Delivery) sampleMessage (emptyReceiptsState [])))) = 1
   \<and> leftPaneUpdates (snd (updateMessageSendState
          (sampleEnv\<lparr>ConversationController_get := (\<lambda>c. None)\<rparr>)
          (sampleReceipt 1 100 Delivery) sampleMessage (emptyReceiptsState []))) = []"
proof -
  let ?env = "sampleEnv\<lparr>ConversationController_get := (\<lambda>c. None)\<rparr>"
  let ?r = "sampleReceipt 1 100 Delivery"
  have h: "\<not> shouldDropReceipt ?env ?r sampleMessage"
    by (simp add: shouldDropReceipt_def sampleReceipt_def)
  have "sendStateByConversationId (fst (updateMessageSendState ?env ?r sampleMessage (emptyReceiptsState [])))
        \<noteq> sendStateByConversationId sampleMessage"
    using h by (simp add: updateMessageSendState_fst mergeReceipt_sendState sampleMessage_def sampleReceipt_def)
  then have ne: "fst (updateMessageSendState ?env ?r sampleMessage (emptyReceiptsState [])) \<noteq> sampleMessage"
    by auto
  show ?thesis
    using ne
    by (simp add: updateMessageSendState_queued updateMessageSendState_leftPane
        emptyReceiptsState_def sampleEnv_def)
qed

text \<open>
  C4, as the code has it: \<open>queueUpdateMessage\<close> is called with the message exactly when
  the merge left the message structurally different (and the message differs from the old
  one at most in its edit history and its top-level mapping); the last-message
  notification is issued exactly when, in addition, the conversation controller knows the
  message's conversation and that conversation carries a \<open>debouncedUpdateLastMessage\<close>.
  A dropped receipt leaves the message as it was, is not persisted and triggers no
  notification. A receipt that is not dropped changes the message exactly when the merged
  edit history differs from the old one or the top-level merge applies and yields a
  mapping different from the old one; one that moves neither does neither.
\<close>

theorem updateMessageSendState_side_effects:
  "queuedUpdates (snd (updateMessageSendState env r msg st)) = queuedUpdates st @
     (if fst (updateMessageSendState env r msg st) \<noteq> msg
      then [fst (updateMessageSendState env r msg st)] else [])
   \<and> leftPaneUpdates (snd (updateMessageSendState env r msg st)) = leftPaneUpdates st @
     (if fst (updateMessageSendState env r msg st) \<noteq> msg
         \<and> (case ConversationController_get env (conversationId msg) of
              None \<Rightarrow> False | Some c \<Rightarrow> debouncedUpdateLastMessage c)
      then [conversationId msg] else [])
   \<and> fst (updateMessageSendState env r msg st) =
       msg\<lparr>editHistory := editHistory (fst (updateMessageSendState env r msg st)),
           sendStateByConversationId :=
             sendStateByConversationId (fst (updateMessageSendState env r msg st))\<rparr>
   \<and> (shouldDropReceipt env r msg \<longrightarrow>
         fst (updateMessageSendState env r msg st) = msg
         \<and> queuedUpdates (snd (updateMessageSendState env r msg st)) = queuedUpdates st
         \<and> leftPaneUpdates (snd (updateMessageSendState env r msg st)) = leftPaneUpdates st)
   \<and> (\<not> shouldDropReceipt env r msg \<longrightarrow>
         (fst (updateMessageSendState env r msg st) \<noteq> msg \<longleftrightarrow>
            map (mergeIntoEdit (reducer env) r)
                (case editHistory msg of None \<Rightarrow> [] | Some es \<Rightarrow> es)
              \<noteq> (case editHistory msg of None \<Rightarrow> [] | Some es \<Rightarrow> es)
            \<or> ((messageSentAt (attributes r) = timestamp msg
                 \<or> Some (messageSentAt (attributes r)) = editMessageTimestamp msg)
               \<and> (case sendStateByConversationId msg of None \<Rightarrow> Map.empty | Some m \<Rightarrow> m)
                   \<noteq> getNewSendStateByConversationId (reducer env)
                        (case sendStateByConversationId msg of
                           None \<Rightarrow> Map.empty | Some m \<Rightarrow> m) r)))"
proof -
  have f: "fst (updateMessageSendState env r msg st) =
       msg\<lparr>editHistory := editHistory (fst (updateMessageSendState env r msg st)),
           sendStateByConversationId :=
             sendStateByConversationId (fst (updateMessageSendState env r msg st))\<rparr>"
    using mergeReceipt_frame[of "reducer env" r msg]
    by (cases "shouldDropReceipt env r msg") (simp_all add: updateMessageSendState_fst)
  have d: "shouldDropReceipt env r msg \<longrightarrow>
         fst (updateMessageSendState env r msg st) = msg
         \<and> queuedUpdates (snd (updateMessageSendState env r msg st)) = queuedUpdates st
         \<and> leftPaneUpdates (snd (updateMessageSendState env r msg st)) = leftPaneUpdates st"
    by (simp add: updateMessageSendState_def)
  have n: "\<not> shouldDropReceipt env r msg \<longrightarrow>
         (fst (updateMessageSendState env r msg st) \<noteq> msg \<longleftrightarrow>
            map (mergeIntoEdit (reducer env) r)
                (case editHistory msg of None \<Rightarrow> [] | Some es \<Rightarrow> es)
              \<noteq> (case editHistory msg of None \<Rightarrow> [] | Some es \<Rightarrow> es)
            \<or> ((messageSentAt (attributes r) = timestamp msg
                 \<or> Some (messageSentAt (attributes r)) = editMessageTimestamp msg)
               \<and> (case sendStateByConversationId msg of None \<Rightarrow> Map.empty | Some m \<Rightarrow> m)
                   \<noteq> getNewSendStateByConversationId (reducer env)
                        (case sendStateByConversationId msg of
                           None \<Rightarrow> Map.empty | Some m \<Rightarrow> m) r))"
    using mergeReceipt_changed[of "reducer env" r msg] mergeReceipt_snd[of "reducer env" r msg]
    by (simp add: updateMessageSendState_fst)
  show ?thesis
    using f d n updateMessageSendState_queued[of env r msg st]
      updateMessageSendState_leftPane[of env r msg st] by blast
qed

theorem updateMessageSendState_side_effects_witness:
  "leftPaneUpdates (snd (updateMessageSendState sampleEnv
          (sampleReceipt 1 100 Delivery) sampleMessage (emptyReceiptsState []))) = [''conv-a'']
   \<and> length (queuedUpdates (snd (updateMessageSendState sampleEnv
          (sampleReceipt 1 100 Delivery) sampleMessage (emptyReceiptsState [])))) = 1
   \<and> shouldDropReceipt sampleEnv (sampleReceipt 1 100 MessageReceiptType.Read) sampleMessage
   \<and> fst (updateMessageSendState sampleEnv
          (sampleReceipt 1 100 MessageReceiptType.Read) sampleMessage (emptyReceiptsState []))
       = sampleMessage
   \<and> queuedUpdates (snd (updateMessageSendState sampleEnv
          (sampleReceipt 1 100 MessageReceiptType.Read) sampleMessage (emptyReceiptsState []))) = []
   \<and> leftPaneUpdates (snd (updateMessageSendState sampleEnv
          (sampleReceipt 1 100 MessageReceiptType.Read) sampleMessage (emptyReceiptsState []))) = []"
proof -
  let ?r = "sampleReceipt 1 100 Delivery"
  let ?d = "sampleReceipt 1 100 MessageReceiptType.Read"
  have h: "\<not> shouldDropReceipt sampleEnv ?r sampleMessage"
    by (simp add: shouldDropReceipt_def sampleReceipt_def)
  have top: "messageSentAt (attributes ?r) = timestamp sampleMessage"
    by (simp add: sampleReceipt_def sampleMessage_def)
  have old: "sendStateByConversationId sampleMessage = None"
    by (simp add: sampleMessage_def)
  have ne: "fst (updateMessageSendState sampleEnv ?r sampleMessage (emptyReceiptsState []))
              \<noteq> sampleMessage"
    using updateMessageSendState_side_effects[of sampleEnv ?r sampleMessage "emptyReceiptsState []"] h top
      getNew_nonempty[of "reducer sampleEnv" Map.empty ?r]
    by (simp add: old)
  have c: "conversationId sampleMessage = ''conv-a''" by (simp add: sampleMessage_def)
  have 1: "leftPaneUpdates (snd (updateMessageSendState sampleEnv ?r sampleMessage
              (emptyReceiptsState []))) = [''conv-a'']
         \<and> length (queuedUpdates (snd (updateMessageSendState sampleEnv ?r sampleMessage
              (emptyReceiptsState [])))) = 1"
    using ne updateMessageSendState_side_effects[of sampleEnv ?r sampleMessage "emptyReceiptsState []"]
    by (simp add: c emptyReceiptsState_def sampleEnv_def sampleConversation_def)
  have k: "shouldDropReceipt sampleEnv ?d sampleMessage"
    by (simp add: shouldDropReceipt_def sampleReceipt_def sampleEnv_def truthy_bool_def)
  have 2: "fst (updateMessageSendState sampleEnv ?d sampleMessage (emptyReceiptsState []))
             = sampleMessage
         \<and> queuedUpdates (snd (updateMessageSendState sampleEnv ?d sampleMessage
              (emptyReceiptsState []))) = []
         \<and> leftPaneUpdates (snd (updateMessageSendState sampleEnv ?d sampleMessage
              (emptyReceiptsState []))) = []"
    using k updateMessageSendState_side_effects[of sampleEnv ?d sampleMessage "emptyReceiptsState []"]
    by (simp add: emptyReceiptsState_def)
  show ?thesis using 1 2 k by simp
qed

subsection \<open>C5: the matcher\<close>

text \<open>
  C5: \<open>getTargetMessage\<close> returns null for an empty candidate list; it returns (the
  model registered for) the first outgoing-or-story candidate whose conversation id is the
  source conversation id; only when there is none, and the group query has answered, it
  returns the first outgoing-or-story candidate whose conversation id is one of the groups
  of the source identity or the source conversation id itself, and null when there is no
  such candidate either.
\<close>

theorem getTargetMessage_priority:
  "getTargetMessage env sourceId serviceId [] = Inr None
   \<and> (messages = pre @ m # post
        \<and> (isOutgoing m \<or> isStory m) \<and> conversationId m = sourceId
        \<and> list_all (\<lambda>x. \<not> ((isOutgoing x \<or> isStory x) \<and> conversationId x = sourceId)) pre
      \<longrightarrow> getTargetMessage env sourceId serviceId messages
            = Inr (Some (register env (id' m) m)))
   \<and> (list_all (\<lambda>x. \<not> ((isOutgoing x \<or> isStory x) \<and> conversationId x = sourceId)) messages
        \<and> getAllGroupsInvolvingServiceId env serviceId = Inr groups
        \<and> messages = pre @ t # post
        \<and> (isOutgoing t \<or> isStory t)
        \<and> conversationId t \<in> set (map conv_id groups) \<union> {sourceId}
        \<and> list_all (\<lambda>x. \<not> ((isOutgoing x \<or> isStory x)
                         \<and> conversationId x \<in> set (map conv_id groups) \<union> {sourceId})) pre
      \<longrightarrow> getTargetMessage env sourceId serviceId messages
            = Inr (Some (register env (id' t) t)))
   \<and> (getAllGroupsInvolvingServiceId env serviceId = Inr groups
        \<and> list_all (\<lambda>x. \<not> ((isOutgoing x \<or> isStory x)
                         \<and> conversationId x \<in> set (map conv_id groups) \<union> {sourceId})) messages
      \<longrightarrow> getTargetMessage env sourceId serviceId messages = Inr None)"
proof (intro conjI impI)
  show "getTargetMessage env sourceId serviceId [] = Inr None"
    by (simp add: getTargetMessage_def)
next
  let ?P = "\<lambda>item. (isOutgoing item \<or> isStory item) \<and> sourceId = conversationId item"
  assume a: "messages = pre @ m # post
        \<and> (isOutgoing m \<or> isStory m) \<and> conversationId m = sourceId
        \<and> list_all (\<lambda>x. \<not> ((isOutgoing x \<or> isStory x) \<and> conversationId x = sourceId)) pre"
  then have "list_all (\<lambda>y. \<not> ?P y) pre" by (auto simp: list_all_iff)
  with a have "find ?P messages = Some m"
    using find_first[of messages pre m post ?P] by auto
  moreover have "messages \<noteq> []" using a by auto
  ultimately show "getTargetMessage env sourceId serviceId messages
            = Inr (Some (register env (id' m) m))"
    by (simp add: getTargetMessage_def)
next
  let ?P = "\<lambda>item. (isOutgoing item \<or> isStory item) \<and> sourceId = conversationId item"
  let ?Q = "\<lambda>item. (isOutgoing item \<or> isStory item)
               \<and> conversationId item \<in> set (map conv_id groups @ [sourceId])"
  assume a: "list_all (\<lambda>x. \<not> ((isOutgoing x \<or> isStory x) \<and> conversationId x = sourceId)) messages
        \<and> getAllGroupsInvolvingServiceId env serviceId = Inr groups
        \<and> messages = pre @ t # post
        \<and> (isOutgoing t \<or> isStory t)
        \<and> conversationId t \<in> set (map conv_id groups) \<union> {sourceId}
        \<and> list_all (\<lambda>x. \<not> ((isOutgoing x \<or> isStory x)
                         \<and> conversationId x \<in> set (map conv_id groups) \<union> {sourceId})) pre"
  then have "list_all (\<lambda>y. \<not> ?P y) messages" by (auto simp: list_all_iff)
  then have p: "find ?P messages = None" by (rule find_none)
  have "list_all (\<lambda>y. \<not> ?Q y) pre" using a by (auto simp: list_all_iff)
  moreover have "?Q t" using a by auto
  ultimately have q: "find ?Q messages = Some t"
    using a find_first[of messages pre t post ?Q] by blast
  have ne: "messages \<noteq> []" using a by auto
  have g: "getAllGroupsInvolvingServiceId env serviceId = Inr groups" using a by simp
  show "getTargetMessage env sourceId serviceId messages
            = Inr (Some (register env (id' t) t))"
    by (simp only: getTargetMessage_def Let_def p q g ne option.case sum.case if_False)
next
  let ?P = "\<lambda>item. (isOutgoing item \<or> isStory item) \<and> sourceId = conversationId item"
  let ?Q = "\<lambda>item. (isOutgoing item \<or> isStory item)
               \<and> conversationId item \<in> set (map conv_id groups @ [sourceId])"
  assume a: "getAllGroupsInvolvingServiceId env serviceId = Inr groups
        \<and> list_all (\<lambda>x. \<not> ((isOutgoing x \<or> isStory x)
                         \<and> conversationId x \<in> set (map conv_id groups) \<union> {sourceId})) messages"
  then have "list_all (\<lambda>y. \<not> ?P y) messages" by (auto simp: list_all_iff)
  then have p: "find ?P messages = None" by (rule find_none)
  have "list_all (\<lambda>y. \<not> ?Q y) messages" using a by (auto simp: list_all_iff)
  then have q: "find ?Q messages = None" by (rule find_none)
  have g: "getAllGroupsInvolvingServiceId env serviceId = Inr groups" using a by simp
  show "getTargetMessage env sourceId serviceId messages = Inr None"
    by (simp only: getTargetMessage_def Let_def p q g option.case sum.case if_cancel)
qed

theorem getTargetMessage_priority_witness:
  "getTargetMessage sampleEnv ''conv-a'' ''aci-bob'' [incomingMessage, groupMessage, sampleMessage]
     = Inr (Some sampleMessage)
   \<and> getTargetMessage
       (sampleEnv\<lparr>getAllGroupsInvolvingServiceId := (\<lambda>s. Inr [groupConversation])\<rparr>)
       ''conv-b'' ''aci-carol'' [incomingMessage, groupMessage, sampleMessage]
     = Inr (Some groupMessage)
   \<and> getTargetMessage sampleEnv ''conv-b'' ''aci-carol'' [incomingMessage, groupMessage, sampleMessage]
     = Inr None"
proof -
  let ?env = "sampleEnv\<lparr>getAllGroupsInvolvingServiceId := (\<lambda>s. Inr [groupConversation])\<rparr>"
  have 1: "getTargetMessage sampleEnv ''conv-a'' ''aci-bob'' [incomingMessage, groupMessage, sampleMessage]
     = Inr (Some sampleMessage)"
    using getTargetMessage_priority[where env = sampleEnv and sourceId = "''conv-a''" and serviceId = "''aci-bob''"
        and messages = "[incomingMessage, groupMessage, sampleMessage]"
        and pre = "[incomingMessage, groupMessage]" and m = sampleMessage and post = "[]"]
    by (simp add: sampleEnv_def incomingMessage_def groupMessage_def sampleMessage_def
        isOutgoing_def isStory_def)
  have 2: "getTargetMessage ?env ''conv-b'' ''aci-carol'' [incomingMessage, groupMessage, sampleMessage]
     = Inr (Some groupMessage)"
    using getTargetMessage_priority[where env = ?env and sourceId = "''conv-b''" and serviceId = "''aci-carol''"
        and messages = "[incomingMessage, groupMessage, sampleMessage]"
        and groups = "[groupConversation]"
        and pre = "[incomingMessage]" and t = groupMessage and post = "[sampleMessage]"]
    by (simp add: sampleEnv_def incomingMessage_def groupMessage_def sampleMessage_def
        isOutgoing_def isStory_def groupConversation_def)
  have 3: "getTargetMessage sampleEnv ''conv-b'' ''aci-carol'' [incomingMessage, groupMessage, sampleMessage]
     = Inr None"
    using getTargetMessage_priority[where env = sampleEnv and sourceId = "''conv-b''" and serviceId = "''aci-carol''"
        and messages = "[incomingMessage, groupMessage, sampleMessage]" and groups = "[]"]
    by (simp add: sampleEnv_def incomingMessage_def groupMessage_def sampleMessage_def
        isOutgoing_def isStory_def)
  show ?thesis using 1 2 3 by simp
qed

subsection \<open>C6: story copies\<close>

text \<open>
  C6: when the matcher returns no single target, \<open>onReceipt\<close> runs
  \<open>updateMessageSendState\<close> on every candidate that has a (non-empty) story distribution
  list id, is not deleted for everyone and whose send-state mapping has an entry for the
  receipt's source conversation, in list order, and then removes the receipt; when there is
  no such candidate it does nothing. In particular the messages queued for persisting are
  exactly the updated models of those copies that the receipt changed.
\<close>

theorem onReceipt_story_copies:
  assumes "getMessagesBySentAt env (messageSentAt (attributes r)) = Inr messages"
    and "getTargetMessage env (sourceConversationId (attributes r))
           (sourceServiceId (attributes r)) messages = Inr None"
  shows "onReceipt env r st =
     (let targetMessages =
            filter (\<lambda>item. truthy (storyDistributionListId item)
                      \<and> \<not> truthy_bool (deletedForEveryone item)
                      \<and> (\<exists>m. sendStateByConversationId item = Some m
                               \<and> sourceConversationId (attributes r) \<in> dom m)) messages
      in if targetMessages = [] then st
         else (foldl (\<lambda>s item. snd (updateMessageSendState env r (register env (id' item) item) s))
                 st targetMessages)\<lparr>receipts := collection_remove [r] (receipts st)\<rparr>)
   \<and> queuedUpdates (onReceipt env r st) = queuedUpdates st @
       concat (map (\<lambda>item. let model = register env (id' item) item;
                              model' = fst (updateMessageSendState env r model st)
                          in if model' \<noteq> model then [model'] else [])
                 (filter (\<lambda>item. truthy (storyDistributionListId item)
                      \<and> \<not> truthy_bool (deletedForEveryone item)
                      \<and> (\<exists>m. sendStateByConversationId item = Some m
                               \<and> sourceConversationId (attributes r) \<in> dom m)) messages))"
proof -
  let ?ts = "filter (isStoryTarget (sourceConversationId (attributes r))) messages"
  have o: "onReceipt env r st =
     (if ?ts = [] then st
      else (updateAll env r ?ts st)\<lparr>receipts := collection_remove [r] (receipts st)\<rparr>)"
    using onReceipt_unmatched[OF assms, of st] by (simp add: Let_def)
  have q: "queuedUpdates (onReceipt env r st) = queuedUpdates st @
       concat (map (\<lambda>item. let model = register env (id' item) item;
                              model' = fst (updateMessageSendState env r model st)
                          in if model' \<noteq> model then [model'] else []) ?ts)"
  proof (cases "?ts = []")
    case True
    then show ?thesis using o by simp
  next
    case False
    then show ?thesis using o updateAll_queued[of env r ?ts st st] by simp
  qed
  show ?thesis
    using o q unfolding isStoryTarget_alt updateAll_def Let_def by simp
qed

theorem onReceipt_story_copies_witness:
  "map id' (queuedUpdates (onReceipt sampleEnv storyReceipt (emptyReceiptsState [storyReceipt])))
     = [''s1'', ''s2'']
   \<and> map sendStateByConversationId
       (queuedUpdates (onReceipt sampleEnv storyReceipt (emptyReceiptsState [storyReceipt])))
     = [Some [''conv-a'' \<mapsto> \<lparr>status = Viewed, updatedAt = Some 150\<rparr>],
        Some [''conv-a'' \<mapsto> \<lparr>status = Viewed, updatedAt = Some 150\<rparr>]]"
proof -
  have e: "queuedUpdates (emptyReceiptsState [storyReceipt]) = []"
    by (simp add: emptyReceiptsState_def)
  have q: "queuedUpdates (onReceipt sampleEnv storyReceipt (emptyReceiptsState [storyReceipt]))
      = [fst (updateMessageSendState sampleEnv storyReceipt (storyCopy ''s1'')
               (emptyReceiptsState [storyReceipt])),
         fst (updateMessageSendState sampleEnv storyReceipt (storyCopy ''s2'')
               (emptyReceiptsState [storyReceipt]))]"
    using onReceipt_story_copies[OF story_messages story_no_single_target, of "emptyReceiptsState [storyReceipt]", THEN conjunct2]
    unfolding story_filter sample_register e by (simp add: Let_def story_changed)
  show ?thesis
    unfolding q by (simp add: story_sendState story_id)
qed

subsection \<open>C7: early receipts of a message\<close>

text \<open>
  Claim C7 speaks of every message queried against the buffer. For an incoming message
  \<open>forMessage\<close> returns at its first guard: a buffered receipt whose \<open>messageSentAt\<close> is
  the message's sent timestamp is neither removed nor returned.
\<close>

theorem forMessage_incoming_keeps_buffer:
  "messageSentAt (attributes (sampleReceipt 1 100 Delivery))
     = getMessageSentTimestamp sampleEnv incomingMessage
   \<and> forMessage sampleEnv incomingMessage [sampleReceipt 1 100 Delivery]
     = ([], [sampleReceipt 1 100 Delivery])"
  by (simp add: forMessage_def sampleEnv_def incomingMessage_def sampleMessage_def
      sampleReceipt_def isOutgoing_def isStory_def)

text \<open>
  C7, as the code has it: for a message that is neither outgoing nor a story, or whose
  source service id is not our own ACI, \<open>forMessage\<close> returns nothing and leaves the
  buffer alone. For an outgoing or story message of our own, and a collection whose models
  have distinct client ids, it removes every buffered receipt whose \<open>messageSentAt\<close>
  equals the message's sent timestamp and no other, returns exactly those removed receipts
  that \<open>shouldDropReceipt\<close> lets pass, and a second query returns nothing: a receipt is
  retrieved at most once, and a dropped one is gone all the same.
\<close>

theorem forMessage_early_receipts:
  "(\<not> (isOutgoing message \<or> isStory message)
      \<or> Some (getCheckedAci env) \<noteq> getSourceServiceId env message
     \<longrightarrow> forMessage env message c = ([], c))
   \<and> ((isOutgoing message \<or> isStory message)
       \<and> Some (getCheckedAci env) = getSourceServiceId env message
       \<and> distinct (map cid c)
     \<longrightarrow> snd (forMessage env message c)
           = filter (\<lambda>r. messageSentAt (attributes r) \<noteq> getMessageSentTimestamp env message) c
         \<and> fst (forMessage env message c)
           = filter (\<lambda>r. \<not> shouldDropReceipt env r message)
               (filter (\<lambda>r. messageSentAt (attributes r) = getMessageSentTimestamp env message) c)
         \<and> forMessage env message (snd (forMessage env message c))
           = ([], snd (forMessage env message c)))"
proof (intro conjI impI)
  assume "\<not> (isOutgoing message \<or> isStory message)
      \<or> Some (getCheckedAci env) \<noteq> getSourceServiceId env message"
  then show "forMessage env message c = ([], c)" by (rule forMessage_guard)
next
  assume a: "(isOutgoing message \<or> isStory message)
       \<and> Some (getCheckedAci env) = getSourceServiceId env message
       \<and> distinct (map cid c)"
  let ?t = "getMessageSentTimestamp env message"
  let ?c' = "filter (\<lambda>r. messageSentAt (attributes r) \<noteq> ?t) c"
  have f: "forMessage env message c =
    (filter (\<lambda>r. \<not> shouldDropReceipt env r message)
       (filter (\<lambda>r. messageSentAt (attributes r) = ?t) c), ?c')"
    using a forMessage_own[of message env c] by blast
  have d: "distinct (map cid ?c')" using a by (simp add: distinct_map_filter)
  have g: "forMessage env message ?c' =
    (filter (\<lambda>r. \<not> shouldDropReceipt env r message)
       (filter (\<lambda>r. messageSentAt (attributes r) = ?t) ?c'),
     filter (\<lambda>r. messageSentAt (attributes r) \<noteq> ?t) ?c')"
    using a d forMessage_own[of message env ?c'] by blast
  show "snd (forMessage env message c) = ?c'" by (simp add: f)
  show "fst (forMessage env message c)
           = filter (\<lambda>r. \<not> shouldDropReceipt env r message)
               (filter (\<lambda>r. messageSentAt (attributes r) = ?t) c)" by (simp add: f)
  show "forMessage env message (snd (forMessage env message c))
           = ([], snd (forMessage env message c))"
    by (simp add: f g)
qed

theorem forMessage_early_receipts_witness:
  "forMessage sampleEnv sampleMessage
     [sampleReceipt 1 100 Delivery, sampleReceipt 2 200 Delivery,
      sampleReceipt 3 100 MessageReceiptType.Read]
     = ([sampleReceipt 1 100 Delivery], [sampleReceipt 2 200 Delivery])
   \<and> forMessage sampleEnv sampleMessage [sampleReceipt 2 200 Delivery]
     = ([], [sampleReceipt 2 200 Delivery])
   \<and> forMessage sampleEnv incomingMessage [sampleReceipt 1 100 Delivery]
     = ([], [sampleReceipt 1 100 Delivery])"
proof -
  let ?c = "[sampleReceipt 1 100 Delivery, sampleReceipt 2 200 Delivery,
      sampleReceipt 3 100 MessageReceiptType.Read]"
  have h: "(isOutgoing sampleMessage \<or> isStory sampleMessage)
       \<and> Some (getCheckedAci sampleEnv) = getSourceServiceId sampleEnv sampleMessage
       \<and> distinct (map cid ?c)"
    by (simp add: isOutgoing_def sampleMessage_def sampleEnv_def sampleReceipt_def)
  have g: "\<not> (isOutgoing incomingMessage \<or> isStory incomingMessage)
      \<or> Some (getCheckedAci sampleEnv) \<noteq> getSourceServiceId sampleEnv incomingMessage"
    by (simp add: isOutgoing_def isStory_def incomingMessage_def sampleMessage_def)
  have t: "getMessageSentTimestamp sampleEnv sampleMessage = 100"
    by (simp add: sampleEnv_def sampleMessage_def)
  have 1: "snd (forMessage sampleEnv sampleMessage ?c) = [sampleReceipt 2 200 Delivery]"
    using forMessage_early_receipts[of sampleMessage sampleEnv ?c] h unfolding t
    by (simp add: sampleReceipt_def)
  have 2: "fst (forMessage sampleEnv sampleMessage ?c) = [sampleReceipt 1 100 Delivery]"
    using forMessage_early_receipts[of sampleMessage sampleEnv ?c] h unfolding t
    by (simp add: sampleReceipt_def shouldDropReceipt_def sampleEnv_def truthy_bool_def)
  have 3: "forMessage sampleEnv sampleMessage [sampleReceipt 2 200 Delivery]
     = ([], [sampleReceipt 2 200 Delivery])"
    using forMessage_early_receipts[of sampleMessage sampleEnv ?c, THEN conjunct2, rule_format, OF h,
        THEN conjunct2, THEN conjunct2]
    unfolding 1 .
  have 4: "forMessage sampleEnv incomingMessage [sampleReceipt 1 100 Delivery]
     = ([], [sampleReceipt 1 100 Delivery])"
    using forMessage_early_receipts[of incomingMessage sampleEnv "[sampleReceipt 1 100 Delivery]"] g by blast
  show ?thesis using 1 2 3 4 by (simp add: prod_eq_iff)
qed

subsection \<open>C8: the drop policy\<close>

text \<open>
  C8: a delivery receipt is never dropped; a read receipt is dropped if and only if the
  read-receipt setting is off; a view receipt for a story is dropped if and only if story
  view receipts are disabled.
\<close>

theorem shouldDropReceipt_policy: 
  "(type (attributes receipt) = Delivery \<longrightarrow> \<not> shouldDropReceipt env receipt message) \<and>
   (type (attributes receipt) = MessageReceiptType.Read \<longrightarrow>
      (shouldDropReceipt env receipt message \<longleftrightarrow> \<not> truthy_bool (read_receipt_setting env))) \<and>
   (type (attributes receipt) = View \<and> isStory message \<longrightarrow>
      (shouldDropReceipt env receipt message \<longleftrightarrow> \<not> getStoryViewReceiptsEnabled env))"
  by (simp add: shouldDropReceipt_def)

theorem shouldDropReceipt_policy_witness:
  "\<not> shouldDropReceipt sampleEnv (sampleReceipt 1 100 Delivery) sampleMessage
   \<and> shouldDropReceipt sampleEnv (sampleReceipt 1 100 MessageReceiptType.Read) sampleMessage
   \<and> \<not> shouldDropReceipt (sampleEnv\<lparr>read_receipt_setting := Some True\<rparr>)
         (sampleReceipt 1 100 MessageReceiptType.Read) sampleMessage
   \<and> \<not> shouldDropReceipt sampleEnv (sampleReceipt 1 300 View) (storyCopy ''s1'')
   \<and> shouldDropReceipt (sampleEnv\<lparr>getStoryViewReceiptsEnabled := False\<rparr>)
         (sampleReceipt 1 300 View) (storyCopy ''s1'')"
  using shouldDropReceipt_policy[of "sampleReceipt 1 100 Delivery" sampleEnv sampleMessage]
    shouldDropReceipt_policy[of "sampleReceipt 1 100 MessageReceiptType.Read" sampleEnv sampleMessage]
    shouldDropReceipt_policy[of "sampleReceipt 1 100 MessageReceiptType.Read"
        "sampleEnv\<lparr>read_receipt_setting := Some True\<rparr>" sampleMessage]
    shouldDropReceipt_policy[of "sampleReceipt 1 300 View" sampleEnv "storyCopy ''s1''"]
    shouldDropReceipt_policy[of "sampleReceipt 1 300 View" "sampleEnv\<lparr>getStoryViewReceiptsEnabled := False\<rparr>"
        "storyCopy ''s1''"]
  by (simp add: sampleReceipt_def sampleEnv_def truthy_bool_def isStory_def storyCopy_def)

subsection \<open>C9: the conversation of a message request response\<close>

text \<open>
  Claim C9 gives the phone number precedence over the group id when \<open>onResponse\<close>
  selects the conversation. The code looks the group id up first: for a response carrying
  both a phone number and a group-v2 id, each known to the conversation controller, the
  response is applied to the group conversation, not to the one of the phone number.
\<close>

theorem onResponse_group_id_first:
  "fst (responseConversation sampleEnv sampleRequest (emptyRequestsState [sampleRequest]))
     = Some groupConversation
   \<and> lookupOrCreate sampleEnv (threadE164 (attributes sampleRequest))
       (threadAci (attributes sampleRequest)) = Some sampleConversation
   \<and> groupConversation \<noteq> sampleConversation
   \<and> appliedResponses (onResponse sampleEnv sampleRequest (emptyRequestsState [sampleRequest]))
     = [(''group-1'', 1)]"
  by (simp add: responseConversation_def onResponse_def sampleEnv_def sampleRequest_def
      emptyRequestsState_def groupConversation_def sampleConversation_def truthy_def)

text \<open>
  C9, as the code has it: \<open>onResponse\<close> takes the conversation the controller holds
  under the event's group-v2 id when the event has one and it is known; otherwise, when
  the event has a phone number or a service identity, the conversation that
  \<open>lookupOrCreate\<close> returns for these two; otherwise none, and the event stays in the
  buffer. \<open>lookupOrCreate\<close> is called at most once and only with the phone number and the
  service identity, so no conversation is created from a group id. The order phone number,
  then service identity, then group-v2 id, first hit wins, is the order in which
  \<open>forConversation\<close> searches the buffer for the pending response of a conversation; the
  response found is removed from the buffer.
\<close>

theorem message_request_conversation:
  "fst (responseConversation env sync st) =
     (case (case groupV2Id (attributes sync) of
              None \<Rightarrow> None
            | Some g \<Rightarrow> if g \<noteq> [] then ConversationController_get env g else None) of
        Some c \<Rightarrow> Some c
      | None \<Rightarrow>
          if truthy (threadE164 (attributes sync)) \<or> truthy (threadAci (attributes sync))
          then lookupOrCreate env (threadE164 (attributes sync)) (threadAci (attributes sync))
          else None)
   \<and> lookups (onResponse env sync st) = lookups st @
       (if (case groupV2Id (attributes sync) of
              None \<Rightarrow> None
            | Some g \<Rightarrow> if g \<noteq> [] then ConversationController_get env g else None) = None
           \<and> (truthy (threadE164 (attributes sync)) \<or> truthy (threadAci (attributes sync)))
        then [(threadE164 (attributes sync), threadAci (attributes sync))] else [])
   \<and> requests (onResponse env sync st) =
       (if fst (responseConversation env sync st) = None then requests st
        else collection_remove [sync] (requests st))
   \<and> (truthy (e164 conversation)
        \<and> find (\<lambda>m. threadE164 (attributes m) = e164 conversation) c = Some s
      \<longrightarrow> forConversation conversation c = (Some s, collection_remove [s] c))
   \<and> (\<not> (truthy (e164 conversation)
           \<and> find (\<lambda>m. threadE164 (attributes m) = e164 conversation) c \<noteq> None)
        \<and> truthy (getServiceId conversation)
        \<and> find (\<lambda>m. threadAci (attributes m) = getServiceId conversation) c = Some s
      \<longrightarrow> forConversation conversation c = (Some s, collection_remove [s] c))
   \<and> (\<not> (truthy (e164 conversation)
           \<and> find (\<lambda>m. threadE164 (attributes m) = e164 conversation) c \<noteq> None)
        \<and> \<not> (truthy (getServiceId conversation)
           \<and> find (\<lambda>m. threadAci (attributes m) = getServiceId conversation) c \<noteq> None)
        \<and> truthy (groupId conversation)
        \<and> find (\<lambda>m. groupV2Id (attributes m) = groupId conversation) c = Some s
      \<longrightarrow> forConversation conversation c = (Some s, collection_remove [s] c))
   \<and> (\<not> (truthy (e164 conversation)
           \<and> find (\<lambda>m. threadE164 (attributes m) = e164 conversation) c \<noteq> None)
        \<and> \<not> (truthy (getServiceId conversation)
           \<and> find (\<lambda>m. threadAci (attributes m) = getServiceId conversation) c \<noteq> None)
        \<and> \<not> (truthy (groupId conversation)
           \<and> find (\<lambda>m. groupV2Id (attributes m) = groupId conversation) c \<noteq> None)
      \<longrightarrow> forConversation conversation c = (None, c))"
proof (intro conjI)
  show "fst (responseConversation env sync st) =
     (case (case groupV2Id (attributes sync) of
              None \<Rightarrow> None
            | Some g \<Rightarrow> if g \<noteq> [] then ConversationController_get env g else None) of
        Some c \<Rightarrow> Some c
      | None \<Rightarrow>
          if truthy (threadE164 (attributes sync)) \<or> truthy (threadAci (attributes sync))
          then lookupOrCreate env (threadE164 (attributes sync)) (threadAci (attributes sync))
          else None)"
    by (rule responseConversation_fst)
  show "lookups (onResponse env sync st) = lookups st @
       (if (case groupV2Id (attributes sync) of
              None \<Rightarrow> None
            | Some g \<Rightarrow> if g \<noteq> [] then ConversationController_get env g else None) = None
           \<and> (truthy (threadE164 (attributes sync)) \<or> truthy (threadAci (attributes sync)))
        then [(threadE164 (attributes sync), threadAci (attributes sync))] else [])"
    by (simp add: onResponse_lookups responseConversation_snd)
  show "requests (onResponse env sync st) =
       (if fst (responseConversation env sync st) = None then requests st
        else collection_remove [sync] (requests st))"
    by (rule onResponse_requests)
qed (auto simp: forConversation_def findWhere_def split: option.splits)

theorem message_request_conversation_witness:
  "forConversation sampleConversation [requestByAci, requestByE164]
     = (Some requestByE164, [requestByAci])
   \<and> forConversation sampleConversation [requestByAci] = (Some requestByAci, [])
   \<and> forConversation groupConversation [requestByAci] = (None, [requestByAci])
   \<and> fst (responseConversation sampleEnv requestByE164 (emptyRequestsState [requestByE164]))
     = Some sampleConversation
   \<and> lookups (onResponse sampleEnv requestByE164 (emptyRequestsState [requestByE164]))
     = [(Some ''+15550100'', None)]
   \<and> requests (onResponse sampleEnv requestByE164 (emptyRequestsState [requestByE164])) = []"
proof -
  have 1: "forConversation sampleConversation [requestByAci, requestByE164]
     = (Some requestByE164, [requestByAci])"
    using message_request_conversation[where conversation = sampleConversation and c = "[requestByAci, requestByE164]"
        and s = requestByE164]
    by (simp add: sampleConversation_def requestByAci_def requestByE164_def truthy_def
        collection_remove_def)
  have 2: "forConversation sampleConversation [requestByAci] = (Some requestByAci, [])"
    using message_request_conversation[where conversation = sampleConversation and c = "[requestByAci]"
        and s = requestByAci]
    by (simp add: sampleConversation_def requestByAci_def truthy_def collection_remove_def)
  have 3: "forConversation groupConversation [requestByAci] = (None, [requestByAci])"
    using message_request_conversation[where conversation = groupConversation and c = "[requestByAci]"]
    by (simp add: groupConversation_def requestByAci_def truthy_def)
  have 4: "fst (responseConversation sampleEnv requestByE164 (emptyRequestsState [requestByE164]))
     = Some sampleConversation
   \<and> lookups (onResponse sampleEnv requestByE164 (emptyRequestsState [requestByE164]))
     = [(Some ''+15550100'', None)]
   \<and> requests (onResponse sampleEnv requestByE164 (emptyRequestsState [requestByE164])) = []"
    using message_request_conversation[where env = sampleEnv and sync = requestByE164
        and st = "emptyRequestsState [requestByE164]"]
    by (simp add: sampleEnv_def requestByE164_def truthy_def emptyRequestsState_def
        collection_remove_def)
  show ?thesis using 1 2 3 4 by simp
qed

subsection \<open>C10: a receipt from a recipient without an entry\<close>

text \<open>
  C10: when the mapping has no entry for the receipt's source conversation id, the merge
  starts from \<open>{status: Sent, updatedAt: undefined}\<close>, and the resulting mapping has an
  entry for that conversation: its keys are the old keys and the source conversation id.
  This holds for every reducer.
\<close>

theorem getNew_missing_entry:
  "m (sourceConversationId (attributes r)) = None \<Longrightarrow>
   getNewSendStateByConversationId red m r
     = m(sourceConversationId (attributes r) \<mapsto>
          red \<lparr>status = Sent, updatedAt = None\<rparr>
              \<lparr>action_type = sendActionTypeOf (type (attributes r)),
               action_updatedAt = receiptTimestamp (attributes r)\<rparr>)
   \<and> sourceConversationId (attributes r) \<in> dom (getNewSendStateByConversationId red m r)
   \<and> dom (getNewSendStateByConversationId red m r) = insert (sourceConversationId (attributes r)) (dom m)"
  by (simp add: getNewSendStateByConversationId_def Let_def)

theorem getNew_missing_entry_witness:
  "getNewSendStateByConversationId sendStateReducer Map.empty (sampleReceipt 1 100 Delivery)
     = [''conv-a'' \<mapsto> \<lparr>status = Delivered, updatedAt = Some 150\<rparr>]
   \<and> ''conv-a'' \<in> dom (getNewSendStateByConversationId sendStateReducer Map.empty
                          (sampleReceipt 1 100 Delivery))"
  using getNew_missing_entry[of Map.empty "sampleReceipt 1 100 Delivery" sendStateReducer]
  by (simp add: sampleReceipt_def sendActionTypeOf_def sendStateReducer_def)

end
